theory Spec2Isabelle
  imports
    Main
    "HOL-Library.AList"
    "HOL-Library.Char_ord"
    "HOL-Library.List_Lexorder"
    "HOL-Library.Multiset"
    "HOL-Library.Word"
begin

section \<open>Data model of \<open>params_manager.py\<close>\<close>

text \<open>
  The type tags are the constants of \<open>rcl_interfaces.msg.ParameterType\<close>. The manager
  stores them (\<open>_add_to_data\<close>) and compares them with \<open>Parameter.type_\<close>; the model
  takes both from one enumeration, so that \<open>!=\<close> is inequality of tags.
\<close>

datatype ParameterType =
    PARAMETER_NOT_SET
  | PARAMETER_BOOL
  | PARAMETER_INTEGER
  | PARAMETER_DOUBLE
  | PARAMETER_STRING
  | PARAMETER_BYTE_ARRAY
  | PARAMETER_BOOL_ARRAY
  | PARAMETER_INTEGER_ARRAY
  | PARAMETER_DOUBLE_ARRAY
  | PARAMETER_STRING_ARRAY

text \<open>
  A Python \<open>float\<close> is an IEEE binary64. The manager only carries floats around, so a
  float is its bit pattern and no floating-point arithmetic is modelled. A Python
  \<open>str\<close> is the list of the bytes of its UTF-8 encoding; the lexicographic order of
  these lists is the order of the code points, which is Python's order on \<open>str\<close>.
\<close>

type_synonym pyfloat = "64 word"

datatype pvalue =
    NoneV
  | BoolV bool
  | IntegerV int
  | DoubleV pyfloat
  | StringV string
  | ByteArrayV "8 word list"
  | BoolArrayV "bool list"
  | IntegerArrayV "int list"
  | DoubleArrayV "pyfloat list"
  | StringArrayV "string list"

text \<open>\<open>rclpy.parameter.Parameter\<close>: the fields \<open>name\<close>, \<open>type_\<close> and \<open>value\<close>.\<close>

record Parameter =
  p_name :: string
  p_type :: ParameterType
  p_value :: pvalue

text \<open>\<open>SetParametersResult(successful, reason)\<close>.\<close>

record SetParametersResult =
  successful :: bool
  reason :: string

text \<open>
  The node is the host object. \<open>attrs\<close> is its attribute namespace, as \<open>getattr\<close>,
  \<open>hasattr\<close> and \<open>setattr\<close> see it: an attribute is a plain value or a callable. A
  callable is called on the parameter and its result is read as a truth value; the
  model takes it to be a predicate (it returns, and it leaves node and manager
  alone). \<open>logged\<close> is what \<open>get_logger()\<close> has received, and \<open>framework\<close> is the state
  that belongs to the ROS 2 client library, which this module never reads.
\<close>

datatype attr = Data pvalue | Callable "Parameter \<Rightarrow> bool"

datatype log_entry =
    LogError string
  | LogUpdate Parameter

record 'fw Node =
  attrs :: "string \<rightharpoonup> attr"
  logged :: "log_entry list"
  framework :: 'fw

text \<open>
  One entry of \<open>_params_data\<close>: the dictionary with the keys \<open>'type'\<close>, \<open>'var_name'\<close>
  and \<open>'validator'\<close> that \<open>_add_to_data\<close> builds.
\<close>

record param_data =
  pd_type :: ParameterType
  pd_var_name :: string
  pd_validator :: string

text \<open>
  \<open>PManager\<close>: \<open>_params_data\<close> is a Python dictionary, kept here as an association
  list in insertion order with \<open>map_of\<close> for \<open>get\<close> and \<open>AList.update\<close> for item
  assignment (an existing key keeps its place and gets the new value, a new key goes to
  the end). The reference \<open>_node\<close> is passed to each operation next to the manager.
\<close>

record PManager =
  params_data :: "(string \<times> param_data) list"
  verbose :: bool

definition PManager_init :: "bool \<Rightarrow> PManager" where
  "PManager_init v = \<lparr>params_data = [], verbose = v\<rparr>"

section \<open>The host object's attributes and its logger\<close>

definition getattr :: "'fw Node \<Rightarrow> string \<Rightarrow> attr option" where
  "getattr node n = attrs node n"

definition hasattr :: "'fw Node \<Rightarrow> string \<Rightarrow> bool" where
  "hasattr node n = (attrs node n \<noteq> None)"

definition setattr :: "'fw Node \<Rightarrow> string \<Rightarrow> pvalue \<Rightarrow> 'fw Node" where
  "setattr node n v = node\<lparr>attrs := (attrs node)(n \<mapsto> Data v)\<rparr>"

definition log_error :: "'fw Node \<Rightarrow> string \<Rightarrow> 'fw Node" where
  "log_error node msg = node\<lparr>logged := logged node @ [LogError msg]\<rparr>"

text \<open>
  \<open>_log_update\<close> formats one line for the parameter and hands it to the logger at level
  \<open>info\<close>; the log keeps the parameter the line is about.
\<close>

definition log_update :: "'fw Node \<Rightarrow> Parameter \<Rightarrow> 'fw Node" where
  "log_update node p = node\<lparr>logged := logged node @ [LogUpdate p]\<rparr>"

section \<open>The parameter update callback\<close>

definition quoted :: "string \<Rightarrow> string" where
  "quoted s = CHR 0x27 # s @ [CHR 0x27]"

definition type_mismatch_reason :: "string \<Rightarrow> string" where
  "type_mismatch_reason n = ''Parameter '' @ quoted n @ '' type mismatch''"

definition validation_failed_reason :: "string \<Rightarrow> string" where
  "validation_failed_reason n = ''Parameter '' @ quoted n @ '' update validation failed''"

text \<open>
  \<open>validator is not None and callable(validator) and not validator(p)\<close>, for the
  attribute that \<open>getattr(self._node, p_data['validator'], None)\<close> returns.
\<close>

definition validator_rejects :: "'fw Node \<Rightarrow> param_data \<Rightarrow> Parameter \<Rightarrow> bool" where
  "validator_rejects node p_data p =
     (case getattr node (pd_validator p_data) of
        Some (Callable validator) \<Rightarrow> \<not> validator p
      | _ \<Rightarrow> False)"

text \<open>
  \<open>_on_set_parameters_callback\<close>. The loop over \<open>params\<close> is the recursion; the result
  object, the manager and the node are returned.
\<close>

fun on_set_parameters_callback ::
  "PManager \<Rightarrow> 'fw Node \<Rightarrow> Parameter list \<Rightarrow> SetParametersResult \<times> PManager \<times> 'fw Node"
where
  "on_set_parameters_callback m node [] =
     (\<lparr>successful = True, reason = ''''\<rparr>, m, node)"
| "on_set_parameters_callback m node (p # params) =
     (case map_of (params_data m) (p_name p) of
        None \<Rightarrow> on_set_parameters_callback m node params
      | Some p_data \<Rightarrow>
          if p_type p \<noteq> pd_type p_data then
            (\<lparr>successful = False, reason = type_mismatch_reason (p_name p)\<rparr>,
             m, log_error node (type_mismatch_reason (p_name p)))
          else if validator_rejects node p_data p then
            (\<lparr>successful = False, reason = validation_failed_reason (p_name p)\<rparr>,
             m, log_error node (validation_failed_reason (p_name p)))
          else
            let node1 = (if hasattr node (pd_var_name p_data)
                         then setattr node (pd_var_name p_data) (p_value p)
                         else node);
                node2 = (if verbose m then log_update node1 p else node1)
            in on_set_parameters_callback m node2 params)"

section \<open>Declaring parameters\<close>

text \<open>\<open>_add_to_data\<close>: \<open>self._params_data[name] = param_data\<close>.\<close>

definition add_to_data :: "PManager \<Rightarrow> string \<Rightarrow> ParameterType \<Rightarrow> string \<Rightarrow> string \<Rightarrow> PManager" where
  "add_to_data m name type var_name validator =
     m\<lparr>params_data :=
         AList.update name
           \<lparr>pd_type = type, pd_var_name = var_name, pd_validator = validator\<rparr>
           (params_data m)\<rparr>"

text \<open>
  Exceptions are values. \<open>FrameworkError\<close> stands for whatever the ROS 2 client
  library raises; all of these are subclasses of \<open>Exception\<close>.
\<close>

datatype py_exception =
    ValueError string
  | KeyError string
  | TypeError string
  | AttributeError string
  | RuntimeError string
  | FrameworkError string

text \<open>\<open>str(e)\<close>; for a \<open>KeyError\<close> it is the \<open>repr\<close> of the key.\<close>

fun exception_text :: "py_exception \<Rightarrow> string" where
  "exception_text (ValueError s) = s"
| "exception_text (KeyError k) = quoted k"
| "exception_text (TypeError s) = s"
| "exception_text (AttributeError s) = s"
| "exception_text (RuntimeError s) = s"
| "exception_text (FrameworkError s) = s"

text \<open>\<open>_parse_bool_str\<close>.\<close>

definition parse_bool_str :: "string \<Rightarrow> py_exception + bool" where
  "parse_bool_str word =
     (if word = ''true'' \<or> word = ''True'' then Inr True
      else if word = ''false'' \<or> word = ''False'' then Inr False
      else Inl (ValueError (''Unknown boolean text representation: '' @ word)))"

text \<open>The messages \<open>IntegerRange\<close>, \<open>FloatingPointRange\<close> and \<open>ParameterDescriptor\<close>.\<close>

record IntegerRange =
  ir_from_value :: int
  ir_to_value :: int
  ir_step :: int

record FloatingPointRange =
  fr_from_value :: pyfloat
  fr_to_value :: pyfloat
  fr_step :: pyfloat

record ParameterDescriptor =
  d_name :: string
  d_type :: ParameterType
  d_description :: string
  d_additional_constraints :: string
  d_read_only :: bool
  d_dynamic_typing :: bool
  d_integer_range :: "IntegerRange list"
  d_floating_point_range :: "FloatingPointRange list"

text \<open>
  \<open>self._node.declare_parameter(name, default_val, descriptor)\<close> is a call into the
  client library. Every declare method takes it as the parameter \<open>dp\<close>: given the
  manager (the library holds the callback that \<open>__init__\<close> registered, which is bound
  to the manager), the three arguments and the node, it returns the exception it raises,
  if any, and the node it leaves. The construction of the descriptor messages belongs to
  the same side of the call.
\<close>

type_synonym 'fw declare_parameter =
  "PManager \<Rightarrow> string \<Rightarrow> pvalue \<Rightarrow> ParameterDescriptor \<Rightarrow> 'fw Node
     \<Rightarrow> py_exception option \<times> 'fw Node"

text \<open>
  A method of the manager that may raise returns the exception, if any, with the manager
  and the node as it leaves them.
\<close>

type_synonym 'fw outcome = "py_exception option \<times> PManager \<times> 'fw Node"

definition declare_bool_parameter ::
  "'fw declare_parameter \<Rightarrow> PManager \<Rightarrow> 'fw Node \<Rightarrow> string \<Rightarrow> bool \<Rightarrow> string \<Rightarrow> string
     \<Rightarrow> bool \<Rightarrow> string \<Rightarrow> string \<Rightarrow> 'fw outcome"
where
  "declare_bool_parameter dp m node name default_val desc constraints read_only var_name validator =
     (let m1 = add_to_data m name PARAMETER_BOOL var_name validator;
          descriptor = \<lparr>d_name = name, d_type = PARAMETER_BOOL, d_description = desc,
            d_additional_constraints = constraints, d_read_only = read_only,
            d_dynamic_typing = False, d_integer_range = [], d_floating_point_range = []\<rparr>;
          (e, node1) = dp m1 name (BoolV default_val) descriptor node
      in (e, m1, node1))"

definition declare_bool_array_parameter ::
  "'fw declare_parameter \<Rightarrow> PManager \<Rightarrow> 'fw Node \<Rightarrow> string \<Rightarrow> bool list \<Rightarrow> string \<Rightarrow> string
     \<Rightarrow> bool \<Rightarrow> string \<Rightarrow> string \<Rightarrow> 'fw outcome"
where
  "declare_bool_array_parameter dp m node name default_val desc constraints read_only var_name validator =
     (let m1 = add_to_data m name PARAMETER_BOOL_ARRAY var_name validator;
          descriptor = \<lparr>d_name = name, d_type = PARAMETER_BOOL_ARRAY, d_description = desc,
            d_additional_constraints = constraints, d_read_only = read_only,
            d_dynamic_typing = False, d_integer_range = [], d_floating_point_range = []\<rparr>;
          (e, node1) = dp m1 name (BoolArrayV default_val) descriptor node
      in (e, m1, node1))"

definition declare_integer_parameter ::
  "'fw declare_parameter \<Rightarrow> PManager \<Rightarrow> 'fw Node \<Rightarrow> string \<Rightarrow> int \<Rightarrow> int \<Rightarrow> int \<Rightarrow> int
     \<Rightarrow> string \<Rightarrow> string \<Rightarrow> bool \<Rightarrow> string \<Rightarrow> string \<Rightarrow> 'fw outcome"
where
  "declare_integer_parameter dp m node name default_val from_val to_val step desc constraints
       read_only var_name validator =
     (let m1 = add_to_data m name PARAMETER_INTEGER var_name validator;
          range = \<lparr>ir_from_value = from_val, ir_to_value = to_val, ir_step = step\<rparr>;
          descriptor = \<lparr>d_name = name, d_type = PARAMETER_INTEGER, d_description = desc,
            d_additional_constraints = constraints, d_read_only = read_only,
            d_dynamic_typing = False, d_integer_range = [range], d_floating_point_range = []\<rparr>;
          (e, node1) = dp m1 name (IntegerV default_val) descriptor node
      in (e, m1, node1))"

definition declare_integer_array_parameter ::
  "'fw declare_parameter \<Rightarrow> PManager \<Rightarrow> 'fw Node \<Rightarrow> string \<Rightarrow> int list \<Rightarrow> int \<Rightarrow> int \<Rightarrow> int
     \<Rightarrow> string \<Rightarrow> string \<Rightarrow> bool \<Rightarrow> string \<Rightarrow> string \<Rightarrow> 'fw outcome"
where
  "declare_integer_array_parameter dp m node name default_val from_val to_val step desc constraints
       read_only var_name validator =
     (let m1 = add_to_data m name PARAMETER_INTEGER_ARRAY var_name validator;
          range = \<lparr>ir_from_value = from_val, ir_to_value = to_val, ir_step = step\<rparr>;
          descriptor = \<lparr>d_name = name, d_type = PARAMETER_INTEGER_ARRAY, d_description = desc,
            d_additional_constraints = constraints, d_read_only = read_only,
            d_dynamic_typing = False, d_integer_range = [range], d_floating_point_range = []\<rparr>;
          (e, node1) = dp m1 name (IntegerArrayV default_val) descriptor node
      in (e, m1, node1))"

definition declare_double_parameter ::
  "'fw declare_parameter \<Rightarrow> PManager \<Rightarrow> 'fw Node \<Rightarrow> string \<Rightarrow> pyfloat \<Rightarrow> pyfloat \<Rightarrow> pyfloat
     \<Rightarrow> pyfloat \<Rightarrow> string \<Rightarrow> string \<Rightarrow> bool \<Rightarrow> string \<Rightarrow> string \<Rightarrow> 'fw outcome"
where
  "declare_double_parameter dp m node name default_val from_val to_val step desc constraints
       read_only var_name validator =
     (let m1 = add_to_data m name PARAMETER_DOUBLE var_name validator;
          range = \<lparr>fr_from_value = from_val, fr_to_value = to_val, fr_step = step\<rparr>;
          descriptor = \<lparr>d_name = name, d_type = PARAMETER_DOUBLE, d_description = desc,
            d_additional_constraints = constraints, d_read_only = read_only,
            d_dynamic_typing = False, d_integer_range = [], d_floating_point_range = [range]\<rparr>;
          (e, node1) = dp m1 name (DoubleV default_val) descriptor node
      in (e, m1, node1))"

definition declare_double_array_parameter ::
  "'fw declare_parameter \<Rightarrow> PManager \<Rightarrow> 'fw Node \<Rightarrow> string \<Rightarrow> pyfloat list \<Rightarrow> pyfloat
     \<Rightarrow> pyfloat \<Rightarrow> pyfloat \<Rightarrow> string \<Rightarrow> string \<Rightarrow> bool \<Rightarrow> string \<Rightarrow> string \<Rightarrow> 'fw outcome"
where
  "declare_double_array_parameter dp m node name default_val from_val to_val step desc constraints
       read_only var_name validator =
     (let m1 = add_to_data m name PARAMETER_DOUBLE_ARRAY var_name validator;
          range = \<lparr>fr_from_value = from_val, fr_to_value = to_val, fr_step = step\<rparr>;
          descriptor = \<lparr>d_name = name, d_type = PARAMETER_DOUBLE_ARRAY, d_description = desc,
            d_additional_constraints = constraints, d_read_only = read_only,
            d_dynamic_typing = False, d_integer_range = [], d_floating_point_range = [range]\<rparr>;
          (e, node1) = dp m1 name (DoubleArrayV default_val) descriptor node
      in (e, m1, node1))"

definition declare_string_parameter ::
  "'fw declare_parameter \<Rightarrow> PManager \<Rightarrow> 'fw Node \<Rightarrow> string \<Rightarrow> string \<Rightarrow> string \<Rightarrow> string
     \<Rightarrow> bool \<Rightarrow> string \<Rightarrow> string \<Rightarrow> 'fw outcome"
where
  "declare_string_parameter dp m node name default_val desc constraints read_only var_name validator =
     (let m1 = add_to_data m name PARAMETER_STRING var_name validator;
          descriptor = \<lparr>d_name = name, d_type = PARAMETER_STRING, d_description = desc,
            d_additional_constraints = constraints, d_read_only = read_only,
            d_dynamic_typing = False, d_integer_range = [], d_floating_point_range = []\<rparr>;
          (e, node1) = dp m1 name (StringV default_val) descriptor node
      in (e, m1, node1))"

definition declare_string_array_parameter ::
  "'fw declare_parameter \<Rightarrow> PManager \<Rightarrow> 'fw Node \<Rightarrow> string \<Rightarrow> string list \<Rightarrow> string \<Rightarrow> string
     \<Rightarrow> bool \<Rightarrow> string \<Rightarrow> string \<Rightarrow> 'fw outcome"
where
  "declare_string_array_parameter dp m node name default_val desc constraints read_only var_name validator =
     (let m1 = add_to_data m name PARAMETER_STRING_ARRAY var_name validator;
          descriptor = \<lparr>d_name = name, d_type = PARAMETER_STRING_ARRAY, d_description = desc,
            d_additional_constraints = constraints, d_read_only = read_only,
            d_dynamic_typing = False, d_integer_range = [], d_floating_point_range = []\<rparr>;
          (e, node1) = dp m1 name (StringArrayV default_val) descriptor node
      in (e, m1, node1))"

definition declare_byte_array_parameter ::
  "'fw declare_parameter \<Rightarrow> PManager \<Rightarrow> 'fw Node \<Rightarrow> string \<Rightarrow> 8 word list \<Rightarrow> string \<Rightarrow> string
     \<Rightarrow> bool \<Rightarrow> string \<Rightarrow> string \<Rightarrow> 'fw outcome"
where
  "declare_byte_array_parameter dp m node name default_val desc constraints read_only var_name validator =
     (let m1 = add_to_data m name PARAMETER_BYTE_ARRAY var_name validator;
          descriptor = \<lparr>d_name = name, d_type = PARAMETER_BYTE_ARRAY, d_description = desc,
            d_additional_constraints = constraints, d_read_only = read_only,
            d_dynamic_typing = False, d_integer_range = [], d_floating_point_range = []\<rparr>;
          (e, node1) = dp m1 name (ByteArrayV default_val) descriptor node
      in (e, m1, node1))"

text \<open>
  A call of one of the nine declare methods with its evaluated arguments, and the call
  itself. Python evaluates all the arguments of a call before it enters the method, so
  the loader below first builds the call and then performs it.
\<close>

datatype declare_call =
    DeclareBool string bool string string bool string string
  | DeclareBoolArray string "bool list" string string bool string string
  | DeclareInteger string int int int int string string bool string string
  | DeclareIntegerArray string "int list" int int int string string bool string string
  | DeclareDouble string pyfloat pyfloat pyfloat pyfloat string string bool string string
  | DeclareDoubleArray string "pyfloat list" pyfloat pyfloat pyfloat string string bool string string
  | DeclareString string string string string bool string string
  | DeclareStringArray string "string list" string string bool string string
  | DeclareByteArray string "8 word list" string string bool string string

fun perform ::
  "'fw declare_parameter \<Rightarrow> PManager \<Rightarrow> 'fw Node \<Rightarrow> declare_call \<Rightarrow> 'fw outcome"
where
  "perform dp m node (DeclareBool name default_val desc constraints read_only var_name validator) =
     declare_bool_parameter dp m node name default_val desc constraints read_only var_name validator"
| "perform dp m node (DeclareBoolArray name default_val desc constraints read_only var_name validator) =
     declare_bool_array_parameter dp m node name default_val desc constraints read_only var_name validator"
| "perform dp m node (DeclareInteger name default_val from_val to_val step desc constraints read_only var_name validator) =
     declare_integer_parameter dp m node name default_val from_val to_val step
       desc constraints read_only var_name validator"
| "perform dp m node (DeclareIntegerArray name default_val from_val to_val step desc constraints read_only var_name validator) =
     declare_integer_array_parameter dp m node name default_val from_val to_val step
       desc constraints read_only var_name validator"
| "perform dp m node (DeclareDouble name default_val from_val to_val step desc constraints read_only var_name validator) =
     declare_double_parameter dp m node name default_val from_val to_val step
       desc constraints read_only var_name validator"
| "perform dp m node (DeclareDoubleArray name default_val from_val to_val step desc constraints read_only var_name validator) =
     declare_double_array_parameter dp m node name default_val from_val to_val step
       desc constraints read_only var_name validator"
| "perform dp m node (DeclareString name default_val desc constraints read_only var_name validator) =
     declare_string_parameter dp m node name default_val desc constraints read_only var_name validator"
| "perform dp m node (DeclareStringArray name default_val desc constraints read_only var_name validator) =
     declare_string_array_parameter dp m node name default_val desc constraints read_only var_name validator"
| "perform dp m node (DeclareByteArray name default_val desc constraints read_only var_name validator) =
     declare_byte_array_parameter dp m node name default_val desc constraints read_only var_name validator"

text \<open>The name, the type tag, the two references and the read-only flag of a call.\<close>

fun call_name :: "declare_call \<Rightarrow> string" where
  "call_name (DeclareBool name _ _ _ _ _ _) = name"
| "call_name (DeclareBoolArray name _ _ _ _ _ _) = name"
| "call_name (DeclareInteger name _ _ _ _ _ _ _ _ _) = name"
| "call_name (DeclareIntegerArray name _ _ _ _ _ _ _ _ _) = name"
| "call_name (DeclareDouble name _ _ _ _ _ _ _ _ _) = name"
| "call_name (DeclareDoubleArray name _ _ _ _ _ _ _ _ _) = name"
| "call_name (DeclareString name _ _ _ _ _ _) = name"
| "call_name (DeclareStringArray name _ _ _ _ _ _) = name"
| "call_name (DeclareByteArray name _ _ _ _ _ _) = name"

fun call_type :: "declare_call \<Rightarrow> ParameterType" where
  "call_type (DeclareBool _ _ _ _ _ _ _) = PARAMETER_BOOL"
| "call_type (DeclareBoolArray _ _ _ _ _ _ _) = PARAMETER_BOOL_ARRAY"
| "call_type (DeclareInteger _ _ _ _ _ _ _ _ _ _) = PARAMETER_INTEGER"
| "call_type (DeclareIntegerArray _ _ _ _ _ _ _ _ _ _) = PARAMETER_INTEGER_ARRAY"
| "call_type (DeclareDouble _ _ _ _ _ _ _ _ _ _) = PARAMETER_DOUBLE"
| "call_type (DeclareDoubleArray _ _ _ _ _ _ _ _ _ _) = PARAMETER_DOUBLE_ARRAY"
| "call_type (DeclareString _ _ _ _ _ _ _) = PARAMETER_STRING"
| "call_type (DeclareStringArray _ _ _ _ _ _ _) = PARAMETER_STRING_ARRAY"
| "call_type (DeclareByteArray _ _ _ _ _ _ _) = PARAMETER_BYTE_ARRAY"

fun call_read_only :: "declare_call \<Rightarrow> bool" where
  "call_read_only (DeclareBool _ _ _ _ read_only _ _) = read_only"
| "call_read_only (DeclareBoolArray _ _ _ _ read_only _ _) = read_only"
| "call_read_only (DeclareInteger _ _ _ _ _ _ _ read_only _ _) = read_only"
| "call_read_only (DeclareIntegerArray _ _ _ _ _ _ _ read_only _ _) = read_only"
| "call_read_only (DeclareDouble _ _ _ _ _ _ _ read_only _ _) = read_only"
| "call_read_only (DeclareDoubleArray _ _ _ _ _ _ _ read_only _ _) = read_only"
| "call_read_only (DeclareString _ _ _ _ read_only _ _) = read_only"
| "call_read_only (DeclareStringArray _ _ _ _ read_only _ _) = read_only"
| "call_read_only (DeclareByteArray _ _ _ _ read_only _ _) = read_only"

fun call_var_name :: "declare_call \<Rightarrow> string" where
  "call_var_name (DeclareBool _ _ _ _ _ var_name _) = var_name"
| "call_var_name (DeclareBoolArray _ _ _ _ _ var_name _) = var_name"
| "call_var_name (DeclareInteger _ _ _ _ _ _ _ _ var_name _) = var_name"
| "call_var_name (DeclareIntegerArray _ _ _ _ _ _ _ _ var_name _) = var_name"
| "call_var_name (DeclareDouble _ _ _ _ _ _ _ _ var_name _) = var_name"
| "call_var_name (DeclareDoubleArray _ _ _ _ _ _ _ _ var_name _) = var_name"
| "call_var_name (DeclareString _ _ _ _ _ var_name _) = var_name"
| "call_var_name (DeclareStringArray _ _ _ _ _ var_name _) = var_name"
| "call_var_name (DeclareByteArray _ _ _ _ _ var_name _) = var_name"

fun call_validator :: "declare_call \<Rightarrow> string" where
  "call_validator (DeclareBool _ _ _ _ _ _ validator) = validator"
| "call_validator (DeclareBoolArray _ _ _ _ _ _ validator) = validator"
| "call_validator (DeclareInteger _ _ _ _ _ _ _ _ _ validator) = validator"
| "call_validator (DeclareIntegerArray _ _ _ _ _ _ _ _ _ validator) = validator"
| "call_validator (DeclareDouble _ _ _ _ _ _ _ _ _ validator) = validator"
| "call_validator (DeclareDoubleArray _ _ _ _ _ _ _ _ _ validator) = validator"
| "call_validator (DeclareString _ _ _ _ _ _ validator) = validator"
| "call_validator (DeclareStringArray _ _ _ _ _ _ validator) = validator"
| "call_validator (DeclareByteArray _ _ _ _ _ _ validator) = validator"

section \<open>The bulk loader\<close>

text \<open>
  What \<open>yaml.load\<close> with the safe loader returns: \<open>None\<close>, booleans, integers, floats,
  strings, lists and dictionaries (a dictionary as the list of its items, with distinct
  keys).
\<close>

datatype yaml =
    YNull
  | YBool bool
  | YInt int
  | YFloat pyfloat
  | YStr string
  | YSeq "yaml list"
  | YMap "(yaml \<times> yaml) list"

text \<open>
  The built-in conversions \<open>str\<close>, \<open>int\<close> and \<open>float\<close>. What they do on a string, a
  boolean, \<open>None\<close>, and on an integer or a float that is already of the target type is
  written out; the rest (number syntax, rounding, the text of a number or a container,
  the exceptions of a refused conversion) is the interpreter's and is taken as a
  parameter.
\<close>

record builtins =
  str_conv :: "yaml \<Rightarrow> string"
  int_conv :: "yaml \<Rightarrow> py_exception + int"
  float_conv :: "yaml \<Rightarrow> py_exception + pyfloat"

definition py_str :: "builtins \<Rightarrow> yaml \<Rightarrow> string" where
  "py_str bi y =
     (case y of
        YStr s \<Rightarrow> s
      | YBool b \<Rightarrow> (if b then ''True'' else ''False'')
      | YNull \<Rightarrow> ''None''
      | _ \<Rightarrow> str_conv bi y)"

definition py_int :: "builtins \<Rightarrow> yaml \<Rightarrow> py_exception + int" where
  "py_int bi y =
     (case y of
        YInt i \<Rightarrow> Inr i
      | YBool b \<Rightarrow> Inr (if b then 1 else 0)
      | _ \<Rightarrow> int_conv bi y)"

definition py_float :: "builtins \<Rightarrow> yaml \<Rightarrow> py_exception + pyfloat" where
  "py_float bi y =
     (case y of
        YFloat f \<Rightarrow> Inr f
      | _ \<Rightarrow> float_conv bi y)"

text \<open>The name of the type of a value, as the interpreter's messages give it.\<close>

fun py_type_name :: "yaml \<Rightarrow> string" where
  "py_type_name YNull = ''NoneType''"
| "py_type_name (YBool b) = ''bool''"
| "py_type_name (YInt i) = ''int''"
| "py_type_name (YFloat f) = ''float''"
| "py_type_name (YStr s) = ''str''"
| "py_type_name (YSeq xs) = ''list''"
| "py_type_name (YMap items) = ''dict''"

text \<open>\<open>values[key]\<close> for a string \<open>key\<close>.\<close>

definition py_getitem :: "yaml \<Rightarrow> string \<Rightarrow> py_exception + yaml" where
  "py_getitem values key =
     (case values of
        YMap items \<Rightarrow>
          (case map_of items (YStr key) of
             None \<Rightarrow> Inl (KeyError key)
           | Some v \<Rightarrow> Inr v)
      | YStr s \<Rightarrow> Inl (TypeError (''string indices must be integers, not '' @ quoted ''str''))
      | YSeq xs \<Rightarrow> Inl (TypeError ''list indices must be integers or slices, not str'')
      | _ \<Rightarrow> Inl (TypeError (quoted (py_type_name values) @ '' object is not subscriptable'')))"

text \<open>\<open>values.get(key, '')\<close>.\<close>

definition py_get :: "yaml \<Rightarrow> string \<Rightarrow> py_exception + yaml" where
  "py_get values key =
     (case values of
        YMap items \<Rightarrow>
          (case map_of items (YStr key) of
             None \<Rightarrow> Inr (YStr [])
           | Some v \<Rightarrow> Inr v)
      | _ \<Rightarrow> Inl (AttributeError
                 (quoted (py_type_name values) @ '' object has no attribute '' @ quoted ''get'')))"

text \<open>\<open>list(v)\<close>: the elements of a list, the characters of a string, the keys of a dictionary.\<close>

definition py_list :: "yaml \<Rightarrow> py_exception + yaml list" where
  "py_list v =
     (case v of
        YSeq xs \<Rightarrow> Inr xs
      | YStr s \<Rightarrow> Inr (map (\<lambda>c. YStr [c]) s)
      | YMap items \<Rightarrow> Inr (map fst items)
      | _ \<Rightarrow> Inl (TypeError (quoted (py_type_name v) @ '' object is not iterable'')))"

text \<open>
  Sequencing with exceptions. The arguments of a call are evaluated from left to right,
  and the first exception ends the evaluation: \<open>then_arg\<close> evaluates two arguments,
  \<open>each_arg\<close> converts the elements of a list in turn, as the loops that fill
  \<open>default_values\<close> do.
\<close>

definition bind_exc :: "py_exception + 'a \<Rightarrow> ('a \<Rightarrow> py_exception + 'b) \<Rightarrow> py_exception + 'b" where
  "bind_exc r f = (case r of Inl e \<Rightarrow> Inl e | Inr x \<Rightarrow> f x)"

definition then_arg :: "py_exception + 'a \<Rightarrow> py_exception + 'b \<Rightarrow> py_exception + 'a \<times> 'b" where
  "then_arg r s = bind_exc r (\<lambda>x. bind_exc s (\<lambda>y. Inr (x, y)))"

fun each_arg :: "('a \<Rightarrow> py_exception + 'b) \<Rightarrow> 'a list \<Rightarrow> py_exception + 'b list" where
  "each_arg f [] = Inr []"
| "each_arg f (x # xs) = bind_exc (f x) (\<lambda>y. bind_exc (each_arg f xs) (\<lambda>ys. Inr (y # ys)))"

text \<open>The argument expressions of the declare calls in \<open>_parse_params_file\<close>.\<close>

definition str_item :: "builtins \<Rightarrow> yaml \<Rightarrow> string \<Rightarrow> py_exception + string" where
  "str_item bi values key = bind_exc (py_getitem values key) (\<lambda>v. Inr (py_str bi v))"

definition int_item :: "builtins \<Rightarrow> yaml \<Rightarrow> string \<Rightarrow> py_exception + int" where
  "int_item bi values key = bind_exc (py_getitem values key) (py_int bi)"

definition float_item :: "builtins \<Rightarrow> yaml \<Rightarrow> string \<Rightarrow> py_exception + pyfloat" where
  "float_item bi values key = bind_exc (py_getitem values key) (py_float bi)"

definition bool_item :: "builtins \<Rightarrow> yaml \<Rightarrow> string \<Rightarrow> py_exception + bool" where
  "bool_item bi values key =
     bind_exc (py_getitem values key) (\<lambda>v. parse_bool_str (py_str bi v))"

definition str_get :: "builtins \<Rightarrow> yaml \<Rightarrow> string \<Rightarrow> py_exception + string" where
  "str_get bi values key = bind_exc (py_get values key) (\<lambda>v. Inr (py_str bi v))"

definition list_item ::
  "(yaml \<Rightarrow> py_exception + 'a) \<Rightarrow> yaml \<Rightarrow> string \<Rightarrow> py_exception + 'a list" where
  "list_item conv values key =
     bind_exc (py_getitem values key) (\<lambda>v. bind_exc (py_list v) (each_arg conv))"

text \<open>
  The last five arguments of every call: \<open>str(values['description'])\<close>,
  \<open>str(values['constraints'])\<close>, \<open>self._parse_bool_str(str(values['read_only']))\<close>,
  \<open>str(values.get('var_name', ''))\<close> and \<open>str(values.get('validator', ''))\<close>.
\<close>

definition common_args ::
  "builtins \<Rightarrow> yaml \<Rightarrow> py_exception + string \<times> string \<times> bool \<times> string \<times> string" where
  "common_args bi values =
     then_arg (str_item bi values ''description'')
    (then_arg (str_item bi values ''constraints'')
    (then_arg (bool_item bi values ''read_only'')
    (then_arg (str_get bi values ''var_name'')
              (str_get bi values ''validator''))))"

text \<open>The three bounds of a numeric parameter, as integers and as floats.\<close>

definition int_range_args :: "builtins \<Rightarrow> yaml \<Rightarrow> py_exception + int \<times> int \<times> int" where
  "int_range_args bi values =
     then_arg (int_item bi values ''min_value'')
    (then_arg (int_item bi values ''max_value'')
              (int_item bi values ''step''))"

definition float_range_args :: "builtins \<Rightarrow> yaml \<Rightarrow> py_exception + pyfloat \<times> pyfloat \<times> pyfloat" where
  "float_range_args bi values =
     then_arg (float_item bi values ''min_value'')
    (then_arg (float_item bi values ''max_value'')
              (float_item bi values ''step''))"

text \<open>
  The chain of comparisons of \<open>values['type']\<close> with the arguments of the call each
  branch makes, from left to right. \<open>ty\<close> is the value of \<open>values['type']\<close>.
\<close>

definition map_exc :: "('a \<Rightarrow> 'b) \<Rightarrow> py_exception + 'a \<Rightarrow> py_exception + 'b" where
  "map_exc f r = (case r of Inl e \<Rightarrow> Inl e | Inr x \<Rightarrow> Inr (f x))"

definition call_from_values ::
  "builtins \<Rightarrow> string \<Rightarrow> yaml \<Rightarrow> yaml \<Rightarrow> py_exception + declare_call"
where
  "call_from_values bi param_name values ty =
     (if ty = YStr ''integer'' then
        map_exc
          (\<lambda>(default_val, (min_val, max_val, step),
              desc, constraints, read_only, var_name, validator).
             DeclareInteger param_name default_val min_val max_val step
               desc constraints read_only var_name validator)
          (then_arg (int_item bi values ''default_value'')
             (then_arg (int_range_args bi values) (common_args bi values)))
      else if ty = YStr ''double'' then
        map_exc
          (\<lambda>(default_val, (min_val, max_val, step),
              desc, constraints, read_only, var_name, validator).
             DeclareDouble param_name default_val min_val max_val step
               desc constraints read_only var_name validator)
          (then_arg (float_item bi values ''default_value'')
             (then_arg (float_range_args bi values) (common_args bi values)))
      else if ty = YStr ''bool'' then
        map_exc
          (\<lambda>(default_val, desc, constraints, read_only, var_name, validator).
             DeclareBool param_name default_val desc constraints read_only var_name validator)
          (then_arg (bool_item bi values ''default_value'') (common_args bi values))
      else if ty = YStr ''string'' then
        map_exc
          (\<lambda>(default_val, desc, constraints, read_only, var_name, validator).
             DeclareString param_name default_val desc constraints read_only var_name validator)
          (then_arg (str_item bi values ''default_value'') (common_args bi values))
      else if ty = YStr ''integer_array'' then
        map_exc
          (\<lambda>(default_values, (min_val, max_val, step),
              desc, constraints, read_only, var_name, validator).
             DeclareIntegerArray param_name default_values min_val max_val step
               desc constraints read_only var_name validator)
          (then_arg (list_item (py_int bi) values ''default_value'')
             (then_arg (int_range_args bi values) (common_args bi values)))
      else if ty = YStr ''double_array'' then
        map_exc
          (\<lambda>(default_values, (min_val, max_val, step),
              desc, constraints, read_only, var_name, validator).
             DeclareDoubleArray param_name default_values min_val max_val step
               desc constraints read_only var_name validator)
          (then_arg (list_item (py_float bi) values ''default_value'')
             (then_arg (float_range_args bi values) (common_args bi values)))
      else if ty = YStr ''bool_array'' then
        map_exc
          (\<lambda>(default_values, desc, constraints, read_only, var_name, validator).
             DeclareBoolArray param_name default_values
               desc constraints read_only var_name validator)
          (then_arg
             (list_item (\<lambda>val. parse_bool_str (py_str bi val)) values ''default_value'')
             (common_args bi values))
      else if ty = YStr ''string_array'' then
        map_exc
          (\<lambda>(default_values, desc, constraints, read_only, var_name, validator).
             DeclareStringArray param_name default_values
               desc constraints read_only var_name validator)
          (then_arg
             (list_item (\<lambda>val. Inr (py_str bi val)) values ''default_value'')
             (common_args bi values))
      else
        Inl (ValueError (''Unsupported parameter type: '' @ py_str bi ty)))"

text \<open>
  The body of the \<open>try\<close> statement for one record. An exception of \<open>values['type']\<close>
  or of an argument leaves manager and node as they are; otherwise the call is made.
\<close>

definition declare_from_values ::
  "builtins \<Rightarrow> 'fw declare_parameter \<Rightarrow> PManager \<Rightarrow> 'fw Node \<Rightarrow> string \<Rightarrow> yaml \<Rightarrow> 'fw outcome"
where
  "declare_from_values bi dp m node param_name values =
     (case py_getitem values ''type'' of
        Inl e \<Rightarrow> (Some e, m, node)
      | Inr ty \<Rightarrow>
          (case call_from_values bi param_name values ty of
             Inl e \<Rightarrow> (Some e, m, node)
           | Inr call \<Rightarrow> perform dp m node call))"

definition parse_failure_text :: "string \<Rightarrow> string \<Rightarrow> string" where
  "parse_failure_text param_name cause =
     ''Failed to parse configuration of parameter '' @ param_name @ '': '' @ cause"

text \<open>
  One turn of the loop: the \<open>try\<close> statement with its handler, which raises a
  \<open>RuntimeError\<close> for any exception of the body.
\<close>

definition declare_record ::
  "builtins \<Rightarrow> 'fw declare_parameter \<Rightarrow> PManager \<Rightarrow> 'fw Node \<Rightarrow> string \<Rightarrow> yaml \<Rightarrow> 'fw outcome"
where
  "declare_record bi dp m node param_name values =
     (case declare_from_values bi dp m node param_name values of
        (Some e, m1, node1) \<Rightarrow>
          (Some (RuntimeError (parse_failure_text param_name (exception_text e))), m1, node1)
      | (None, m1, node1) \<Rightarrow> (None, m1, node1))"

text \<open>The loop over \<open>params_dict.items()\<close>: an exception leaves it.\<close>

fun declare_all ::
  "builtins \<Rightarrow> 'fw declare_parameter \<Rightarrow> PManager \<Rightarrow> 'fw Node \<Rightarrow> (string \<times> yaml) list \<Rightarrow> 'fw outcome"
where
  "declare_all bi dp m node [] = (None, m, node)"
| "declare_all bi dp m node ((param_name, values) # rest) =
     (case declare_record bi dp m node param_name values of
        (Some e, m1, node1) \<Rightarrow> (Some e, m1, node1)
      | (None, m1, node1) \<Rightarrow> declare_all bi dp m1 node1 rest)"

text \<open>
  \<open>dict(xs)\<close> for a list of pairs, and \<open>sorted\<close> on the items of a dictionary: the keys
  of a dictionary are distinct, so the order of the pairs is the order of their keys.
\<close>

definition py_dict :: "('k \<times> 'v) list \<Rightarrow> ('k \<times> 'v) list" where
  "py_dict xs = foldl (\<lambda>d (k, v). AList.update k v d) [] xs"

definition py_sorted_items :: "(string \<times> 'v) list \<Rightarrow> (string \<times> 'v) list" where
  "py_sorted_items xs = sort_key fst xs"

text \<open>
  \<open>_parse_params_file\<close> from the line that builds \<open>params_dict\<close>. The argument
  \<open>params\<close> is \<open>params_yaml['params'].items()\<close>, a dictionary from parameter names to
  records in the order the YAML parser produced it; opening and parsing the file, which
  come before, are input and output.
\<close>

definition parse_params_file ::
  "builtins \<Rightarrow> 'fw declare_parameter \<Rightarrow> PManager \<Rightarrow> 'fw Node \<Rightarrow> (string \<times> yaml) list \<Rightarrow> 'fw outcome"
where
  "parse_params_file bi dp m node params =
     (let params_dict = py_dict (py_sorted_items params)
      in declare_all bi dp m node params_dict)"

section \<open>Notions used to state the properties\<close>

text \<open>
  An item of a batch is rejected, for given attributes of the host, when its name is
  declared and either its type tag differs from the declared one or the declared
  validator resolves to a callable that refuses it.
\<close>

definition rejects_at :: "PManager \<Rightarrow> (string \<rightharpoonup> attr) \<Rightarrow> Parameter \<Rightarrow> bool" where
  "rejects_at m a p =
     (case map_of (params_data m) (p_name p) of
        None \<Rightarrow> False
      | Some d \<Rightarrow>
          p_type p \<noteq> pd_type d \<or>
          (case a (pd_validator d) of Some (Callable f) \<Rightarrow> \<not> f p | _ \<Rightarrow> False))"

text \<open>
  The backing-field write of an item: the value goes to the attribute named by the
  declaration when the host has an attribute of that name; an undeclared name and an
  unresolvable backing field write nothing.
\<close>

definition write_back :: "PManager \<Rightarrow> (string \<rightharpoonup> attr) \<Rightarrow> Parameter \<Rightarrow> (string \<rightharpoonup> attr)" where
  "write_back m a p =
     (case map_of (params_data m) (p_name p) of
        None \<Rightarrow> a
      | Some d \<Rightarrow>
          if pd_var_name d \<in> dom a then a(pd_var_name d \<mapsto> Data (p_value p)) else a)"

text \<open>
  No item of the list is rejected, each one seen with the attributes that the writes of
  the items before it have left.
\<close>

fun accepted_all :: "PManager \<Rightarrow> (string \<rightharpoonup> attr) \<Rightarrow> Parameter list \<Rightarrow> bool" where
  "accepted_all m a [] = True"
| "accepted_all m a (p # ps) = (\<not> rejects_at m a p \<and> accepted_all m (write_back m a p) ps)"

text \<open>The reason reported for a rejected item.\<close>

definition reject_reason :: "PManager \<Rightarrow> Parameter \<Rightarrow> string" where
  "reject_reason m p =
     (case map_of (params_data m) (p_name p) of
        None \<Rightarrow> []
      | Some d \<Rightarrow>
          if p_type p \<noteq> pd_type d then type_mismatch_reason (p_name p)
          else validation_failed_reason (p_name p))"

text \<open>
  The node after an accepted item: the write to the backing field, when the host has
  it, and the line in the log, when the manager is verbose.
\<close>

definition after_accepted :: "PManager \<Rightarrow> 'fw Node \<Rightarrow> Parameter \<Rightarrow> 'fw Node" where
  "after_accepted m node p =
     (case map_of (params_data m) (p_name p) of
        None \<Rightarrow> node
      | Some d \<Rightarrow>
          let node1 = (if hasattr node (pd_var_name d)
                       then setattr node (pd_var_name d) (p_value p)
                       else node)
          in if verbose m then log_update node1 p else node1)"

text \<open>
  Malformed records, in the three ways the loader's contract names: a required field is
  missing, a boolean text cannot be parsed, the type tag is not supported. The required
  fields are \<open>type\<close>, \<open>default_value\<close>, \<open>description\<close>, \<open>constraints\<close> and \<open>read_only\<close>,
  and for the numeric types \<open>min_value\<close>, \<open>max_value\<close> and \<open>step\<close>. The boolean texts
  are \<open>read_only\<close>, the default of a \<open>bool\<close> and the elements of the default of a
  \<open>bool_array\<close>.
\<close>

definition supported_types :: "string list" where
  "supported_types =
     [''integer'', ''double'', ''bool'', ''string'',
      ''integer_array'', ''double_array'', ''bool_array'', ''string_array'']"

definition numeric_types :: "string list" where
  "numeric_types = [''integer'', ''double'', ''integer_array'', ''double_array'']"

definition required_fields :: "yaml \<Rightarrow> string list" where
  "required_fields ty =
     [''type'', ''default_value'', ''description'', ''constraints'', ''read_only''] @
     (if ty \<in> set (map YStr numeric_types) then [''min_value'', ''max_value'', ''step''] else [])"

definition missing_field :: "yaml \<Rightarrow> bool" where
  "missing_field values =
     (case values of
        YMap items \<Rightarrow>
          (case map_of items (YStr ''type'') of
             None \<Rightarrow> True
           | Some ty \<Rightarrow> list_ex (\<lambda>k. map_of items (YStr k) = None) (required_fields ty))
      | _ \<Rightarrow> False)"

definition bad_bool :: "builtins \<Rightarrow> yaml \<Rightarrow> bool" where
  "bad_bool bi v = isl (parse_bool_str (py_str bi v))"

definition bad_bool_text :: "builtins \<Rightarrow> yaml \<Rightarrow> bool" where
  "bad_bool_text bi values =
     (case values of
        YMap items \<Rightarrow>
          (case map_of items (YStr ''read_only'') of
             Some v \<Rightarrow> bad_bool bi v
           | None \<Rightarrow> False) \<or>
          (case map_of items (YStr ''default_value'') of
             Some v \<Rightarrow>
               (map_of items (YStr ''type'') = Some (YStr ''bool'') \<and> bad_bool bi v) \<or>
               (map_of items (YStr ''type'') = Some (YStr ''bool_array'') \<and>
                (case py_list v of Inr xs \<Rightarrow> list_ex (bad_bool bi) xs | Inl e \<Rightarrow> False))
           | None \<Rightarrow> False)
      | _ \<Rightarrow> False)"

definition unsupported_type :: "yaml \<Rightarrow> bool" where
  "unsupported_type values =
     (case values of
        YMap items \<Rightarrow>
          (case map_of items (YStr ''type'') of
             Some ty \<Rightarrow> ty \<notin> set (map YStr supported_types)
           | None \<Rightarrow> False)
      | _ \<Rightarrow> False)"

definition malformed :: "builtins \<Rightarrow> yaml \<Rightarrow> bool" where
  "malformed bi values =
     (missing_field values \<or> bad_bool_text bi values \<or> unsupported_type values)"

section \<open>A client library and an interpreter for the concrete cases\<close>

text \<open>
  The properties below hold for every client library and every behaviour of the
  built-in conversions. The concrete cases need one of each. This client library keeps
  the names it has declared, refuses a name a second time, and submits the initial value
  to the manager's callback before it accepts a declaration. This interpreter refuses
  every conversion to a number that is not written out in \<open>py_int\<close> and \<open>py_float\<close>.
\<close>

definition example_declare_parameter :: "(string list) declare_parameter" where
  "example_declare_parameter m name v descriptor node =
     (if name \<in> set (framework node) then
        (Some (FrameworkError ''ParameterAlreadyDeclaredException''), node)
      else
        (case on_set_parameters_callback m node
                [\<lparr>p_name = name, p_type = d_type descriptor, p_value = v\<rparr>] of
           (res, m1, node1) \<Rightarrow>
             if successful res then (None, node1\<lparr>framework := framework node1 @ [name]\<rparr>)
             else (Some (FrameworkError (reason res)), node1)))"

definition example_builtins :: builtins where
  "example_builtins =
     \<lparr>str_conv = (\<lambda>y. ''<text>''),
      int_conv = (\<lambda>y. Inl (ValueError ''invalid literal for int()'')),
      float_conv = (\<lambda>y. Inl (ValueError ''could not convert to float''))\<rparr>"

definition example_node :: "(string \<rightharpoonup> attr) \<Rightarrow> (string list) Node" where
  "example_node a = \<lparr>attrs = a, logged = [], framework = []\<rparr>"

text \<open>
  A manager with three declarations, a host with the three backing fields and the
  validator of the third, which refuses the empty string.
\<close>

definition example_manager :: PManager where
  "example_manager =
     add_to_data
       (add_to_data
          (add_to_data (PManager_init False) ''a'' PARAMETER_INTEGER ''a_var'' [])
          ''b'' PARAMETER_INTEGER ''b_var'' [])
       ''c'' PARAMETER_STRING ''c_var'' ''check_c''"

definition example_attrs :: "string \<rightharpoonup> attr" where
  "example_attrs =
     [''a_var'' \<mapsto> Data (IntegerV 0),
      ''b_var'' \<mapsto> Data (IntegerV 0),
      ''c_var'' \<mapsto> Data (StringV ''x''),
      ''check_c'' \<mapsto> Callable (\<lambda>p. p_value p \<noteq> StringV [])]"

definition param_a :: Parameter where
  "param_a = \<lparr>p_name = ''a'', p_type = PARAMETER_INTEGER, p_value = IntegerV 7\<rparr>"

definition param_a_bad :: Parameter where
  "param_a_bad = \<lparr>p_name = ''a'', p_type = PARAMETER_BOOL, p_value = BoolV True\<rparr>"

definition param_b_bad :: Parameter where
  "param_b_bad = \<lparr>p_name = ''b'', p_type = PARAMETER_STRING, p_value = StringV ''seven''\<rparr>"

definition param_c :: Parameter where
  "param_c = \<lparr>p_name = ''c'', p_type = PARAMETER_STRING, p_value = StringV ''y''\<rparr>"

definition param_c_empty :: Parameter where
  "param_c_empty = \<lparr>p_name = ''c'', p_type = PARAMETER_STRING, p_value = StringV []\<rparr>"

definition param_unknown :: Parameter where
  "param_unknown = \<lparr>p_name = ''unregistered'', p_type = PARAMETER_BOOL, p_value = BoolV True\<rparr>"

text \<open>
  A declare call for a read-only integer parameter with a host that has its backing
  field, an update of that parameter, an update of it with the type tag of a string, and
  a second declare call for the name \<open>a\<close>.
\<close>

definition count_call :: declare_call where
  "count_call =
     DeclareInteger ''count'' 5 0 10 1 ''Number of items'' ''0 to 10'' True ''count_var'' []"

definition count_node :: "(string list) Node" where
  "count_node = example_node [''count_var'' \<mapsto> Data (IntegerV 0)]"

definition param_count :: Parameter where
  "param_count = \<lparr>p_name = ''count'', p_type = PARAMETER_INTEGER, p_value = IntegerV 3\<rparr>"

definition param_count_bad :: Parameter where
  "param_count_bad =
     \<lparr>p_name = ''count'', p_type = PARAMETER_STRING, p_value = StringV ''three''\<rparr>"

definition redeclare_a :: declare_call where
  "redeclare_a = DeclareBool ''a'' True ''A flag'' ''none'' False ''flag'' ''check_c''"

text \<open>
  Records of a parameters file: an integer parameter, a string parameter with a backing
  field, and a boolean parameter whose default is the text \<open>yes\<close>.
\<close>

definition record_a :: yaml where
  "record_a =
     YMap [(YStr ''type'', YStr ''integer''), (YStr ''default_value'', YInt 5),
           (YStr ''min_value'', YInt 0), (YStr ''max_value'', YInt 10), (YStr ''step'', YInt 1),
           (YStr ''description'', YStr ''first''), (YStr ''constraints'', YStr ''none''),
           (YStr ''read_only'', YBool False)]"

definition record_z :: yaml where
  "record_z =
     YMap [(YStr ''type'', YStr ''string''), (YStr ''default_value'', YStr ''x''),
           (YStr ''description'', YStr ''last''), (YStr ''constraints'', YStr ''none''),
           (YStr ''read_only'', YStr ''false''), (YStr ''var_name'', YStr ''z_var'')]"

definition record_bad_bool :: yaml where
  "record_bad_bool =
     YMap [(YStr ''type'', YStr ''bool''), (YStr ''default_value'', YStr ''yes''),
           (YStr ''description'', YStr ''a flag''), (YStr ''constraints'', YStr ''none''),
           (YStr ''read_only'', YStr ''false'')]"

definition empty_node :: "(string list) Node" where
  "empty_node = example_node Map.empty"

section \<open>The update callback: one item, and a batch\<close>

lemma validator_rejects_attrs:
  "validator_rejects node d p =
     (case attrs node (pd_validator d) of Some (Callable f) \<Rightarrow> \<not> f p | _ \<Rightarrow> False)"
  by (simp add: validator_rejects_def getattr_def)

lemma attrs_after_accepted:
  "attrs (after_accepted m node p) = write_back m (attrs node) p"
  by (auto simp add: after_accepted_def write_back_def hasattr_def setattr_def log_update_def
      Let_def split: option.splits)

lemma framework_after_accepted:
  "framework (after_accepted m node p) = framework node"
  by (simp add: after_accepted_def hasattr_def setattr_def log_update_def Let_def
      split: option.splits)

lemma attrs_foldl_after_accepted:
  "attrs (foldl (after_accepted m) node ps) = foldl (write_back m) (attrs node) ps"
  by (induction ps arbitrary: node) (simp_all add: attrs_after_accepted)

lemma callback_step_accept:
  assumes "\<not> rejects_at m (attrs node) p"
  shows "on_set_parameters_callback m node (p # ps) =
           on_set_parameters_callback m (after_accepted m node p) ps"
proof (cases "map_of (params_data m) (p_name p)")
  case None
  then show ?thesis by (simp add: after_accepted_def)
next
  case (Some d)
  with assms have "p_type p = pd_type d" and "\<not> validator_rejects node d p"
    by (simp_all add: rejects_at_def validator_rejects_attrs)
  with Some show ?thesis by (simp add: after_accepted_def Let_def)
qed

lemma callback_step_reject:
  assumes "rejects_at m (attrs node) p"
  shows "on_set_parameters_callback m node (p # ps) =
           (\<lparr>successful = False, reason = reject_reason m p\<rparr>, m,
            log_error node (reject_reason m p))"
proof (cases "map_of (params_data m) (p_name p)")
  case None
  with assms show ?thesis by (simp add: rejects_at_def)
next
  case (Some d)
  with assms show ?thesis
    by (auto simp add: rejects_at_def validator_rejects_attrs reject_reason_def)
qed

lemma callback_accepted_all:
  "accepted_all m (attrs node) ps \<Longrightarrow>
     on_set_parameters_callback m node ps =
       (\<lparr>successful = True, reason = []\<rparr>, m, foldl (after_accepted m) node ps)"
proof (induction ps arbitrary: node)
  case Nil
  then show ?case by simp
next
  case (Cons p ps)
  then have nr: "\<not> rejects_at m (attrs node) p"
    and rest: "accepted_all m (attrs (after_accepted m node p)) ps"
    by (simp_all add: attrs_after_accepted)
  show ?case
    using callback_step_accept[OF nr, of ps] Cons.IH[OF rest] by simp
qed

lemma callback_first_rejected:
  "accepted_all m (attrs node) pre \<Longrightarrow>
   rejects_at m (foldl (write_back m) (attrs node) pre) p \<Longrightarrow>
     on_set_parameters_callback m node (pre @ p # post) =
       (\<lparr>successful = False, reason = reject_reason m p\<rparr>, m,
        log_error (foldl (after_accepted m) node pre) (reject_reason m p))"
proof (induction pre arbitrary: node)
  case Nil
  then have "rejects_at m (attrs node) p" by simp
  from callback_step_reject[OF this, of post] show ?case by simp
next
  case (Cons q pre)
  then have nr: "\<not> rejects_at m (attrs node) q"
    and rest: "accepted_all m (attrs (after_accepted m node q)) pre"
    and rej: "rejects_at m (foldl (write_back m) (attrs (after_accepted m node q)) pre) p"
    by (simp_all add: attrs_after_accepted)
  show ?case
    using callback_step_accept[OF nr, of "pre @ p # post"] Cons.IH[OF rest rej] by simp
qed

lemma not_accepted_all_split:
  "\<not> accepted_all m a ps \<Longrightarrow>
     \<exists>pre p post. ps = pre @ p # post \<and> accepted_all m a pre \<and>
       rejects_at m (foldl (write_back m) a pre) p"
proof (induction ps arbitrary: a)
  case Nil
  then show ?case by simp
next
  case (Cons q ps)
  show ?case
  proof (cases "rejects_at m a q")
    case True
    then have "q # ps = [] @ q # ps \<and> accepted_all m a [] \<and>
        rejects_at m (foldl (write_back m) a []) q"
      by simp
    then show ?thesis by blast
  next
    case False
    with Cons.prems have "\<not> accepted_all m (write_back m a q) ps" by simp
    from Cons.IH[OF this] obtain pre p post where
      h: "ps = pre @ p # post" "accepted_all m (write_back m a q) pre"
         "rejects_at m (foldl (write_back m) (write_back m a q) pre) p" by blast
    with False have "q # ps = (q # pre) @ p # post \<and> accepted_all m a (q # pre) \<and>
        rejects_at m (foldl (write_back m) a (q # pre)) p" by simp
    then show ?thesis by blast
  qed
qed

lemma accepted_all_append:
  "accepted_all m a (ps @ qs) =
     (accepted_all m a ps \<and> accepted_all m (foldl (write_back m) a ps) qs)"
  by (induction ps arbitrary: a) simp_all


lemma attrs_log_error: "attrs (log_error node msg) = attrs node"
  by (simp add: log_error_def)

lemma example_manager_data:
  "params_data example_manager =
     [(''a'', \<lparr>pd_type = PARAMETER_INTEGER, pd_var_name = ''a_var'', pd_validator = []\<rparr>),
      (''b'', \<lparr>pd_type = PARAMETER_INTEGER, pd_var_name = ''b_var'', pd_validator = []\<rparr>),
      (''c'', \<lparr>pd_type = PARAMETER_STRING, pd_var_name = ''c_var'', pd_validator = ''check_c''\<rparr>)]"
  by (simp add: example_manager_def add_to_data_def PManager_init_def)

lemma example_manager_verbose: "verbose example_manager = False"
  by (simp add: example_manager_def add_to_data_def PManager_init_def)

lemma example_rejects_a: "\<not> rejects_at example_manager example_attrs param_a"
  by (simp add: rejects_at_def example_manager_data example_attrs_def param_a_def)

lemma example_write_a:
  "write_back example_manager example_attrs param_a = example_attrs(''a_var'' \<mapsto> Data (IntegerV 7))"
  by (simp add: write_back_def example_manager_data example_attrs_def param_a_def)




text \<open>
  C3. A batch of names that the store does not hold is answered with success and the
  empty reason, and leaves the manager and the whole node, its attributes included, as
  they were.
\<close>

theorem callback_unknown_names_skipped:
  assumes "\<forall>p \<in> set params. map_of (params_data m) (p_name p) = None"
  shows "on_set_parameters_callback m node params =
           (\<lparr>successful = True, reason = []\<rparr>, m, node)"
  using assms by (induction params) simp_all

theorem callback_unknown_names_skipped_witness:
  "map_of (params_data example_manager) (p_name param_unknown) = None \<and>
   on_set_parameters_callback example_manager (example_node example_attrs) [param_unknown] =
     (\<lparr>successful = True, reason = []\<rparr>, example_manager, example_node example_attrs)"
proof -
  have h: "\<forall>p \<in> set [param_unknown]. map_of (params_data example_manager) (p_name p) = None"
    by (simp add: example_manager_data param_unknown_def)
  from h callback_unknown_names_skipped[OF h, of "example_node example_attrs"]
  show ?thesis by simp
qed

lemma callback_stops_at_rejected:
  assumes "accepted_all m (attrs node) pre"
    and "rejects_at m (foldl (write_back m) (attrs node) pre) p"
  shows "on_set_parameters_callback m node (pre @ p # post) =
         on_set_parameters_callback m node (pre @ [p])"
  using callback_first_rejected[OF assms, of post] callback_first_rejected[OF assms, of "[]"]
  by simp

text \<open>
  C2, as the code has it. An item that the callback reaches (no item before it is
  rejected), whose name is declared and whose type tag differs from the declared one,
  makes the callback return \<open>successful = False\<close> with the reason
  \<open>Parameter '<name>' type mismatch\<close>; the attributes of the host are those left by the
  items before it, and the outcome does not depend on the items after it.
\<close>

theorem callback_type_mismatch:
  assumes "accepted_all m (attrs node) pre"
    and "map_of (params_data m) (p_name p) = Some d"
    and "p_type p \<noteq> pd_type d"
  shows "fst (on_set_parameters_callback m node (pre @ p # post)) =
           \<lparr>successful = False, reason = ''Parameter '' @ quoted (p_name p) @ '' type mismatch''\<rparr> \<and>
         attrs (snd (snd (on_set_parameters_callback m node (pre @ p # post)))) =
           foldl (write_back m) (attrs node) pre \<and>
         on_set_parameters_callback m node (pre @ p # post) =
           on_set_parameters_callback m node (pre @ [p])"
proof -
  have rej: "rejects_at m (foldl (write_back m) (attrs node) pre) p"
    using assms(2,3) by (simp add: rejects_at_def)
  have rr: "reject_reason m p = ''Parameter '' @ quoted (p_name p) @ '' type mismatch''"
    using assms(2,3) by (simp add: reject_reason_def type_mismatch_reason_def)
  show ?thesis
    using callback_first_rejected[OF assms(1) rej, of post]
      callback_stops_at_rejected[OF assms(1) rej, of post]
    by (simp add: rr attrs_log_error attrs_foldl_after_accepted)
qed

theorem callback_type_mismatch_witness:
  "accepted_all example_manager (attrs (example_node example_attrs)) [param_a] \<and>
   map_of (params_data example_manager) (p_name param_b_bad) =
     Some \<lparr>pd_type = PARAMETER_INTEGER, pd_var_name = ''b_var'', pd_validator = []\<rparr> \<and>
   p_type param_b_bad \<noteq> PARAMETER_INTEGER \<and>
   fst (on_set_parameters_callback example_manager (example_node example_attrs)
          ([param_a] @ param_b_bad # [param_c])) =
     \<lparr>successful = False, reason = ''Parameter '' @ quoted ''b'' @ '' type mismatch''\<rparr> \<and>
   attrs (snd (snd (on_set_parameters_callback example_manager (example_node example_attrs)
          ([param_a] @ param_b_bad # [param_c])))) =
     example_attrs(''a_var'' \<mapsto> Data (IntegerV 7)) \<and>
   on_set_parameters_callback example_manager (example_node example_attrs)
          ([param_a] @ param_b_bad # [param_c]) =
     on_set_parameters_callback example_manager (example_node example_attrs)
          ([param_a] @ [param_b_bad])"
proof -
  have h1: "accepted_all example_manager (attrs (example_node example_attrs)) [param_a]"
    by (simp add: example_node_def example_rejects_a)
  have h2: "map_of (params_data example_manager) (p_name param_b_bad) =
      Some \<lparr>pd_type = PARAMETER_INTEGER, pd_var_name = ''b_var'', pd_validator = []\<rparr>"
    by (simp add: example_manager_data param_b_bad_def)
  have h3: "p_type param_b_bad \<noteq>
      pd_type \<lparr>pd_type = PARAMETER_INTEGER, pd_var_name = ''b_var'', pd_validator = []\<rparr>"
    by (simp add: param_b_bad_def)
  have n: "p_name param_b_bad = ''b''" by (simp add: param_b_bad_def)
  have w: "foldl (write_back example_manager) (attrs (example_node example_attrs)) [param_a] =
      example_attrs(''a_var'' \<mapsto> Data (IntegerV 7))"
    by (simp add: example_node_def example_write_a)
  have h3': "p_type param_b_bad \<noteq> PARAMETER_INTEGER"
    by (simp add: param_b_bad_def)
  note t = callback_type_mismatch[OF h1 h2 h3, of "[param_c]", unfolded n w]
  from t h1 h2 h3' show ?thesis by blast
qed

theorem callback_type_mismatch_counterexample:
  "reason (fst (on_set_parameters_callback example_manager (example_node example_attrs)
      [param_a_bad, param_b_bad])) = ''Parameter '' @ quoted ''a'' @ '' type mismatch'' \<and>
   reason (fst (on_set_parameters_callback example_manager (example_node example_attrs)
      [param_a_bad, param_b_bad])) \<noteq> ''type mismatch for a'' \<and>
   reason (fst (on_set_parameters_callback example_manager (example_node example_attrs)
      [param_a_bad, param_b_bad])) \<noteq> ''type mismatch for b''"
  by (simp add: example_manager_data param_a_bad_def param_b_bad_def type_mismatch_reason_def
      quoted_def)

text \<open>
  C4, as the code has it. Take an item that the callback reaches, whose name is declared
  and whose type tag is the declared one. The validator is looked up in the attributes
  that the items before it have left, before the item's own write. If it resolves to a
  callable that refuses the parameter, the callback returns \<open>successful = False\<close> with
  the reason \<open>Parameter '<name>' update validation failed\<close>, writes nothing for the
  item and does not look at the items after it. If it does not resolve to a callable
  (an empty reference on a host with no attribute of that name, a missing attribute, a
  plain value), or the callable accepts, the item is accepted and its backing field is
  written when the host has it.
\<close>

theorem callback_validator:
  assumes "accepted_all m (attrs node) pre"
    and "map_of (params_data m) (p_name p) = Some d"
    and "p_type p = pd_type d"
    and "a = foldl (write_back m) (attrs node) pre"
  shows "(\<forall>f. a (pd_validator d) = Some (Callable f) \<and> \<not> f p \<longrightarrow>
            fst (on_set_parameters_callback m node (pre @ p # post)) =
              \<lparr>successful = False,
               reason = ''Parameter '' @ quoted (p_name p) @ '' update validation failed''\<rparr> \<and>
            attrs (snd (snd (on_set_parameters_callback m node (pre @ p # post)))) = a \<and>
            on_set_parameters_callback m node (pre @ p # post) =
              on_set_parameters_callback m node (pre @ [p])) \<and>
         ((\<forall>f. a (pd_validator d) = Some (Callable f) \<longrightarrow> f p) \<longrightarrow>
            fst (on_set_parameters_callback m node (pre @ [p])) =
              \<lparr>successful = True, reason = []\<rparr> \<and>
            attrs (snd (snd (on_set_parameters_callback m node (pre @ [p])))) =
              (if pd_var_name d \<in> dom a then a(pd_var_name d \<mapsto> Data (p_value p)) else a))"
proof (intro conjI allI impI)
  fix f
  assume f: "a (pd_validator d) = Some (Callable f) \<and> \<not> f p"
  have rej: "rejects_at m (foldl (write_back m) (attrs node) pre) p"
    using assms(2,3) f by (simp add: rejects_at_def assms(4)[symmetric])
  have rr: "reject_reason m p = ''Parameter '' @ quoted (p_name p) @ '' update validation failed''"
    using assms(2,3) by (simp add: reject_reason_def validation_failed_reason_def)
  show "fst (on_set_parameters_callback m node (pre @ p # post)) =
      \<lparr>successful = False,
       reason = ''Parameter '' @ quoted (p_name p) @ '' update validation failed''\<rparr>"
    using callback_first_rejected[OF assms(1) rej, of post] by (simp add: rr)
  show "attrs (snd (snd (on_set_parameters_callback m node (pre @ p # post)))) = a"
    using callback_first_rejected[OF assms(1) rej, of post]
    by (simp add: attrs_log_error attrs_foldl_after_accepted assms(4))
  show "on_set_parameters_callback m node (pre @ p # post) =
      on_set_parameters_callback m node (pre @ [p])"
    by (rule callback_stops_at_rejected[OF assms(1) rej])
next
  assume ok: "\<forall>f. a (pd_validator d) = Some (Callable f) \<longrightarrow> f p"
  have nrej: "\<not> rejects_at m a p"
    using assms(2,3) ok by (auto simp add: rejects_at_def split: option.splits attr.splits)
  have acc: "accepted_all m (attrs node) (pre @ [p])"
    using assms(1) nrej by (simp add: accepted_all_append assms(4))
  have wb: "write_back m a p =
      (if pd_var_name d \<in> dom a then a(pd_var_name d \<mapsto> Data (p_value p)) else a)"
    using assms(2) by (simp add: write_back_def)
  show "fst (on_set_parameters_callback m node (pre @ [p])) = \<lparr>successful = True, reason = []\<rparr>"
    using callback_accepted_all[OF acc] by simp
  show "attrs (snd (snd (on_set_parameters_callback m node (pre @ [p])))) =
      (if pd_var_name d \<in> dom a then a(pd_var_name d \<mapsto> Data (p_value p)) else a)"
  proof -
    have "attrs (snd (snd (on_set_parameters_callback m node (pre @ [p])))) =
        foldl (write_back m) (attrs node) (pre @ [p])"
      using callback_accepted_all[OF acc] by (simp only: snd_conv attrs_foldl_after_accepted)
    also have "\<dots> = write_back m a p" by (simp add: assms(4))
    finally show ?thesis by (simp only: wb)
  qed
qed

theorem callback_validator_witness:
  "accepted_all example_manager (attrs (example_node example_attrs)) [param_a] \<and>
   map_of (params_data example_manager) ''c'' =
     Some \<lparr>pd_type = PARAMETER_STRING, pd_var_name = ''c_var'', pd_validator = ''check_c''\<rparr> \<and>
   (example_attrs(''a_var'' \<mapsto> Data (IntegerV 7))) ''check_c'' =
     Some (Callable (\<lambda>p. p_value p \<noteq> StringV [])) \<and>
   p_value param_c_empty = StringV [] \<and>
   fst (on_set_parameters_callback example_manager (example_node example_attrs)
          ([param_a] @ param_c_empty # [param_b_bad])) =
     \<lparr>successful = False,
      reason = ''Parameter '' @ quoted ''c'' @ '' update validation failed''\<rparr> \<and>
   attrs (snd (snd (on_set_parameters_callback example_manager (example_node example_attrs)
          ([param_a] @ param_c_empty # [param_b_bad])))) =
     example_attrs(''a_var'' \<mapsto> Data (IntegerV 7)) \<and>
   fst (on_set_parameters_callback example_manager (example_node example_attrs)
          ([param_a] @ [param_c])) = \<lparr>successful = True, reason = []\<rparr> \<and>
   attrs (snd (snd (on_set_parameters_callback example_manager (example_node example_attrs)
          ([param_a] @ [param_c])))) =
     example_attrs(''a_var'' \<mapsto> Data (IntegerV 7), ''c_var'' \<mapsto> Data (StringV ''y''))"
proof -
  let ?d = "\<lparr>pd_type = PARAMETER_STRING, pd_var_name = ''c_var'', pd_validator = ''check_c''\<rparr>"
  let ?a = "example_attrs(''a_var'' \<mapsto> Data (IntegerV 7))"
  let ?chk = "\<lambda>p. p_value p \<noteq> StringV []"
  have h1: "accepted_all example_manager (attrs (example_node example_attrs)) [param_a]"
    by (simp add: example_node_def example_rejects_a)
  have h2: "map_of (params_data example_manager) ''c'' = Some ?d"
    by (simp add: example_manager_data)
  have h2e: "map_of (params_data example_manager) (p_name param_c_empty) = Some ?d"
    and h2c: "map_of (params_data example_manager) (p_name param_c) = Some ?d"
    by (simp_all add: example_manager_data param_c_empty_def param_c_def)
  have h3e: "p_type param_c_empty = pd_type ?d" and h3c: "p_type param_c = pd_type ?d"
    by (simp_all add: param_c_empty_def param_c_def)
  have w: "?a = foldl (write_back example_manager) (attrs (example_node example_attrs)) [param_a]"
    by (simp add: example_node_def example_write_a)
  have v: "?a ''check_c'' = Some (Callable ?chk)"
    by (simp add: example_attrs_def)
  have ve: "p_value param_c_empty = StringV []" by (simp add: param_c_empty_def)
  have vc: "p_value param_c \<noteq> StringV []" by (simp add: param_c_def)
  have dv: "''c_var'' \<in> dom ?a" by (simp add: example_attrs_def)
  have pre_rej: "?a (pd_validator ?d) = Some (Callable ?chk) \<and> \<not> ?chk param_c_empty"
    using v ve by simp
  have pre_acc: "\<forall>f. ?a (pd_validator ?d) = Some (Callable f) \<longrightarrow> f param_c"
    using v vc by simp
  note rejected =
    callback_validator[OF h1 h2e h3e w, of "[param_b_bad]", THEN conjunct1, rule_format, OF pre_rej]
  note accepted =
    callback_validator[OF h1 h2c h3c w, of "[]", THEN conjunct2, THEN mp, OF pre_acc]
  have n: "p_name param_c_empty = ''c''" by (simp add: param_c_empty_def)
  have pv: "p_value param_c = StringV ''y''" by (simp add: param_c_def)
  have vn: "pd_var_name ?d = ''c_var''" by simp
  note accepted' = accepted[unfolded vn pv if_P[OF dv]]
  note r1 = rejected[unfolded n, THEN conjunct1]
  note r2 = rejected[unfolded n, THEN conjunct2, THEN conjunct1]
  note a1 = accepted'[THEN conjunct1]
  note a2 = accepted'[THEN conjunct2]
  show ?thesis
    by (intro conjI) (rule h1 h2 v ve r1 r2 a1 a2)+
qed

theorem callback_validator_counterexample:
  "reason (fst (on_set_parameters_callback example_manager (example_node example_attrs)
      [param_c_empty])) = ''Parameter '' @ quoted ''c'' @ '' update validation failed'' \<and>
   reason (fst (on_set_parameters_callback example_manager (example_node example_attrs)
      [param_c_empty])) \<noteq> ''validation failed for c'' \<and>
   reason (fst (on_set_parameters_callback example_manager (example_node example_attrs)
      [param_b_bad, param_c_empty])) = ''Parameter '' @ quoted ''b'' @ '' type mismatch''"
  by (simp add: example_manager_data example_attrs_def example_node_def param_b_bad_def
      param_c_empty_def type_mismatch_reason_def validation_failed_reason_def quoted_def
      validator_rejects_def getattr_def)

section \<open>Declare operations and the store\<close>

lemma map_of_add_to_data:
  "map_of (params_data (add_to_data m n t v w)) =
     (map_of (params_data m))(n \<mapsto> \<lparr>pd_type = t, pd_var_name = v, pd_validator = w\<rparr>)"
  by (simp add: add_to_data_def update_conv')

lemma keys_add_to_data:
  "map fst (params_data (add_to_data m n t v w)) =
     (if n \<in> set (map fst (params_data m)) then map fst (params_data m)
      else map fst (params_data m) @ [n])"
  by (simp add: add_to_data_def update_keys)

lemma verbose_add_to_data: "verbose (add_to_data m n t v w) = verbose m"
  by (simp add: add_to_data_def)

lemma perform_manager:
  "fst (snd (perform dp m node call)) =
     add_to_data m (call_name call) (call_type call) (call_var_name call) (call_validator call)"
  by (cases call)
    (simp_all add: declare_bool_parameter_def declare_bool_array_parameter_def
      declare_integer_parameter_def declare_integer_array_parameter_def
      declare_double_parameter_def declare_double_array_parameter_def
      declare_string_parameter_def declare_string_array_parameter_def
      declare_byte_array_parameter_def Let_def split: prod.splits)

lemma rejects_at_declared:
  assumes "map_of (params_data m) (p_name p) = Some d"
  shows "rejects_at m a p =
     (p_type p \<noteq> pd_type d \<or> (\<exists>f. a (pd_validator d) = Some (Callable f) \<and> \<not> f p))"
  using assms by (auto simp add: rejects_at_def split: option.splits attr.splits)

text \<open>
  C5, as the code has it. The store keeps the type tag and the two references of a
  declaration and not its read-only flag. After a declare call with \<open>read_only = True\<close>,
  by any of the nine methods and whatever the client library does with it, the callback
  rejects an update of that parameter exactly when the type tag differs from the declared
  one or the validator resolves to a callable that refuses it: its result is successful
  for every other update and for no such update. A rejected update is answered with the
  reason of the type mismatch or of the failed validation and leaves the attributes
  of the host as they were; any other update is accepted, and its value is written to the
  backing field when the host has it.
\<close>

theorem read_only_not_enforced_by_callback:
  assumes "call_read_only call"
    and "m' = fst (snd (perform dp m node call))"
    and "p_name p = call_name call"
  shows "rejects_at m' (attrs node') p =
           (p_type p \<noteq> call_type call \<or>
            (\<exists>f. attrs node' (call_validator call) = Some (Callable f) \<and> \<not> f p)) \<and>
         successful (fst (on_set_parameters_callback m' node' [p])) =
           (p_type p = call_type call \<and>
            \<not> (\<exists>f. attrs node' (call_validator call) = Some (Callable f) \<and> \<not> f p)) \<and>
         (rejects_at m' (attrs node') p \<longrightarrow>
            fst (on_set_parameters_callback m' node' [p]) =
              \<lparr>successful = False,
               reason = (if p_type p \<noteq> call_type call then type_mismatch_reason (p_name p)
                         else validation_failed_reason (p_name p))\<rparr> \<and>
            attrs (snd (snd (on_set_parameters_callback m' node' [p]))) = attrs node') \<and>
         (\<not> rejects_at m' (attrs node') p \<longrightarrow>
            fst (on_set_parameters_callback m' node' [p]) = \<lparr>successful = True, reason = []\<rparr> \<and>
            attrs (snd (snd (on_set_parameters_callback m' node' [p]))) =
              (if call_var_name call \<in> dom (attrs node')
               then (attrs node')(call_var_name call \<mapsto> Data (p_value p))
               else attrs node'))"
proof -
  let ?d = "\<lparr>pd_type = call_type call, pd_var_name = call_var_name call,
             pd_validator = call_validator call\<rparr>"
  let ?cb = "on_set_parameters_callback m' node' [p]"
  let ?why = "if p_type p \<noteq> call_type call then type_mismatch_reason (p_name p)
              else validation_failed_reason (p_name p)"
  have d: "map_of (params_data m') (p_name p) = Some ?d"
    by (simp add: assms(2,3) perform_manager map_of_add_to_data)
  have r: "rejects_at m' (attrs node') p =
      (p_type p \<noteq> call_type call \<or>
       (\<exists>f. attrs node' (call_validator call) = Some (Callable f) \<and> \<not> f p))"
    using rejects_at_declared[OF d, of "attrs node'"] by simp
  have w: "write_back m' (attrs node') p =
      (if call_var_name call \<in> dom (attrs node')
       then (attrs node')(call_var_name call \<mapsto> Data (p_value p))
       else attrs node')"
    using d by (simp add: write_back_def)
  have why: "reject_reason m' p = ?why"
    using d by (simp add: reject_reason_def)
  have acc: "\<not> rejects_at m' (attrs node') p \<Longrightarrow>
      fst ?cb = \<lparr>successful = True, reason = []\<rparr> \<and>
      attrs (snd (snd ?cb)) = write_back m' (attrs node') p"
  proof -
    assume "\<not> rejects_at m' (attrs node') p"
    then have "accepted_all m' (attrs node') [p]" by simp
    from callback_accepted_all[OF this] show ?thesis
      by (simp add: attrs_after_accepted)
  qed
  have rej: "rejects_at m' (attrs node') p \<Longrightarrow>
      fst ?cb = \<lparr>successful = False, reason = ?why\<rparr> \<and>
      attrs (snd (snd ?cb)) = attrs node'"
  proof -
    assume "rejects_at m' (attrs node') p"
    from callback_step_reject[OF this, of "[]"] show ?thesis
      by (simp add: why attrs_log_error)
  qed
  have s: "successful (fst ?cb) = (\<not> rejects_at m' (attrs node') p)"
  proof (cases "rejects_at m' (attrs node') p")
    case True
    with rej[OF True] show ?thesis by simp
  next
    case False
    with acc[OF False] show ?thesis by simp
  qed
  have s': "successful (fst ?cb) =
      (p_type p = call_type call \<and>
       \<not> (\<exists>f. attrs node' (call_validator call) = Some (Callable f) \<and> \<not> f p))"
    unfolding s r by blast
  from r s' rej acc[unfolded w] show ?thesis by blast
qed

lemma count_declared:
  "perform example_declare_parameter (PManager_init False) count_node count_call =
     (None,
      \<lparr>params_data = [(''count'', \<lparr>pd_type = PARAMETER_INTEGER, pd_var_name = ''count_var'',
                                  pd_validator = []\<rparr>)], verbose = False\<rparr>,
      \<lparr>attrs = [''count_var'' \<mapsto> Data (IntegerV 5)], logged = [], framework = [''count'']\<rparr>)"
  by (simp add: count_call_def count_node_def example_node_def declare_integer_parameter_def
      example_declare_parameter_def add_to_data_def PManager_init_def validator_rejects_def
      getattr_def hasattr_def setattr_def Let_def)

theorem read_only_not_enforced_by_callback_witness:
  "call_read_only count_call \<and>
   p_name param_count = call_name count_call \<and>
   p_name param_count_bad = call_name count_call \<and>
   fst (on_set_parameters_callback
          (fst (snd (perform example_declare_parameter (PManager_init False) count_node count_call)))
          (snd (snd (perform example_declare_parameter (PManager_init False) count_node count_call)))
          [param_count]) = \<lparr>successful = True, reason = []\<rparr> \<and>
   attrs (snd (snd (on_set_parameters_callback
          (fst (snd (perform example_declare_parameter (PManager_init False) count_node count_call)))
          (snd (snd (perform example_declare_parameter (PManager_init False) count_node count_call)))
          [param_count]))) = [''count_var'' \<mapsto> Data (IntegerV 3)] \<and>
   fst (on_set_parameters_callback
          (fst (snd (perform example_declare_parameter (PManager_init False) count_node count_call)))
          (snd (snd (perform example_declare_parameter (PManager_init False) count_node count_call)))
          [param_count_bad]) =
     \<lparr>successful = False, reason = type_mismatch_reason ''count''\<rparr> \<and>
   attrs (snd (snd (on_set_parameters_callback
          (fst (snd (perform example_declare_parameter (PManager_init False) count_node count_call)))
          (snd (snd (perform example_declare_parameter (PManager_init False) count_node count_call)))
          [param_count_bad]))) = [''count_var'' \<mapsto> Data (IntegerV 5)]"
proof -
  let ?o = "perform example_declare_parameter (PManager_init False) count_node count_call"
  have h1: "call_read_only count_call" by (simp add: count_call_def)
  have h3: "p_name param_count = call_name count_call"
    by (simp add: param_count_def count_call_def)
  have h4: "p_name param_count_bad = call_name count_call"
    by (simp add: param_count_bad_def count_call_def)
  note t = read_only_not_enforced_by_callback[OF h1 refl h3,
      of example_declare_parameter "PManager_init False" count_node "snd (snd ?o)"]
  note u = read_only_not_enforced_by_callback[OF h1 refl h4,
      of example_declare_parameter "PManager_init False" count_node "snd (snd ?o)"]
  have a: "attrs (snd (snd ?o)) = [''count_var'' \<mapsto> Data (IntegerV 5)]"
    by (simp add: count_declared)
  have ct: "call_type count_call = PARAMETER_INTEGER" "call_validator count_call = []"
      "call_var_name count_call = ''count_var''"
    by (simp_all add: count_call_def)
  have pt: "p_type param_count = PARAMETER_INTEGER" "p_value param_count = IntegerV 3"
    by (simp_all add: param_count_def)
  have bt: "p_type param_count_bad = PARAMETER_STRING" "p_name param_count_bad = ''count''"
    by (simp_all add: param_count_bad_def)
  have nr: "\<not> rejects_at (fst (snd ?o)) (attrs (snd (snd ?o))) param_count"
  proof -
    have "\<not> (p_type param_count \<noteq> call_type count_call \<or>
        (\<exists>f. attrs (snd (snd ?o)) (call_validator count_call) = Some (Callable f) \<and>
           \<not> f param_count))"
      unfolding a ct pt by simp
    then show ?thesis unfolding t[THEN conjunct1] .
  qed
  have rj: "rejects_at (fst (snd ?o)) (attrs (snd (snd ?o))) param_count_bad"
  proof -
    have "p_type param_count_bad \<noteq> call_type count_call \<or>
        (\<exists>f. attrs (snd (snd ?o)) (call_validator count_call) = Some (Callable f) \<and>
           \<not> f param_count_bad)"
      unfolding ct bt by simp
    then show ?thesis unfolding u[THEN conjunct1] .
  qed
  have w: "(if call_var_name count_call \<in> dom (attrs (snd (snd ?o)))
       then (attrs (snd (snd ?o)))(call_var_name count_call \<mapsto> Data (p_value param_count))
       else attrs (snd (snd ?o))) = [''count_var'' \<mapsto> Data (IntegerV 3)]"
    unfolding a ct pt by simp
  have y: "(if p_type param_count_bad \<noteq> call_type count_call
       then type_mismatch_reason (p_name param_count_bad)
       else validation_failed_reason (p_name param_count_bad)) = type_mismatch_reason ''count''"
    unfolding ct bt by simp
  note c = t[THEN conjunct2, THEN conjunct2, THEN conjunct2, THEN mp, OF nr, unfolded w]
  note e = u[THEN conjunct2, THEN conjunct2, THEN conjunct1, THEN mp, OF rj, unfolded y a]
  show ?thesis
    by (intro conjI)
      (rule h1 h3 h4 c[THEN conjunct1] c[THEN conjunct2] e[THEN conjunct1] e[THEN conjunct2])+
qed

theorem read_only_not_enforced_by_callback_counterexample:
  "call_read_only count_call \<and>
   fst (perform example_declare_parameter (PManager_init False) count_node count_call) = None \<and>
   on_set_parameters_callback
     (fst (snd (perform example_declare_parameter (PManager_init False) count_node count_call)))
     (snd (snd (perform example_declare_parameter (PManager_init False) count_node count_call)))
     [param_count] =
   (\<lparr>successful = True, reason = []\<rparr>,
    \<lparr>params_data = [(''count'', \<lparr>pd_type = PARAMETER_INTEGER, pd_var_name = ''count_var'',
                                pd_validator = []\<rparr>)], verbose = False\<rparr>,
    \<lparr>attrs = [''count_var'' \<mapsto> Data (IntegerV 3)], logged = [], framework = [''count'']\<rparr>)"
  by (simp add: count_declared)
    (simp add: count_call_def param_count_def validator_rejects_def getattr_def hasattr_def
      setattr_def Let_def)

text \<open>
  C6, as the code has it. A declare call for a name that the store already holds is not
  refused by the store: whatever the client library does with the call, the store then
  holds the type tag and the references of the new call under that name, at the place the
  name had, and every other entry is as it was.
\<close>

theorem declare_replaces_existing:
  assumes "call_name call \<in> set (map fst (params_data m))"
    and "m' = fst (snd (perform dp m node call))"
  shows "map_of (params_data m') (call_name call) =
           Some \<lparr>pd_type = call_type call, pd_var_name = call_var_name call,
                 pd_validator = call_validator call\<rparr> \<and>
         (\<forall>k. k \<noteq> call_name call \<longrightarrow> map_of (params_data m') k = map_of (params_data m) k) \<and>
         map fst (params_data m') = map fst (params_data m)"
  using assms(1) by (simp add: assms(2) perform_manager map_of_add_to_data keys_add_to_data)

lemma redeclared_a:
  "perform example_declare_parameter example_manager (example_node example_attrs) redeclare_a =
     (None,
      \<lparr>params_data =
         [(''a'', \<lparr>pd_type = PARAMETER_BOOL, pd_var_name = ''flag'', pd_validator = ''check_c''\<rparr>),
          (''b'', \<lparr>pd_type = PARAMETER_INTEGER, pd_var_name = ''b_var'', pd_validator = []\<rparr>),
          (''c'', \<lparr>pd_type = PARAMETER_STRING, pd_var_name = ''c_var'', pd_validator = ''check_c''\<rparr>)],
       verbose = False\<rparr>,
      \<lparr>attrs = example_attrs, logged = [], framework = [''a'']\<rparr>)"
proof -
  have m: "example_manager = \<lparr>params_data = params_data example_manager, verbose = False\<rparr>"
    by (simp add: example_manager_verbose[symmetric])
  show ?thesis
    apply (subst m)
    apply (simp add: example_manager_data redeclare_a_def example_node_def
        declare_bool_parameter_def example_declare_parameter_def add_to_data_def
        validator_rejects_def getattr_def hasattr_def Let_def)
    apply (simp add: example_attrs_def)
    done
qed

theorem declare_replaces_existing_witness:
  "call_name redeclare_a \<in> set (map fst (params_data example_manager)) \<and>
   map_of (params_data (fst (snd (perform example_declare_parameter example_manager
        (example_node example_attrs) redeclare_a)))) (call_name redeclare_a) =
     Some \<lparr>pd_type = PARAMETER_BOOL, pd_var_name = ''flag'', pd_validator = ''check_c''\<rparr> \<and>
   map_of (params_data (fst (snd (perform example_declare_parameter example_manager
        (example_node example_attrs) redeclare_a)))) ''b'' =
     map_of (params_data example_manager) ''b'' \<and>
   map fst (params_data (fst (snd (perform example_declare_parameter example_manager
        (example_node example_attrs) redeclare_a)))) = [''a'', ''b'', ''c'']"
proof -
  have h: "call_name redeclare_a \<in> set (map fst (params_data example_manager))"
    by (simp add: redeclare_a_def example_manager_data)
  note t = declare_replaces_existing[OF h refl,
      of example_declare_parameter "example_node example_attrs"]
  have c: "call_type redeclare_a = PARAMETER_BOOL" "call_var_name redeclare_a = ''flag''"
      "call_validator redeclare_a = ''check_c''"
    by (simp_all add: redeclare_a_def)
  have n: "''b'' \<noteq> call_name redeclare_a" by (simp add: redeclare_a_def)
  have k: "map fst (params_data example_manager) = [''a'', ''b'', ''c'']"
    by (simp add: example_manager_data)
  note t1 = t[THEN conjunct1, unfolded c]
  note t2 = t[THEN conjunct2, THEN conjunct1, rule_format, OF n]
  note t3 = t[THEN conjunct2, THEN conjunct2, unfolded k]
  show ?thesis
    by (intro conjI) (rule h t1 t2 t3)+
qed

theorem declare_replaces_existing_counterexample:
  "map_of (params_data example_manager) ''a'' =
     Some \<lparr>pd_type = PARAMETER_INTEGER, pd_var_name = ''a_var'', pd_validator = []\<rparr> \<and>
   fst (perform example_declare_parameter example_manager
          (example_node example_attrs) redeclare_a) = None \<and>
   map_of (params_data (fst (snd (perform example_declare_parameter example_manager
          (example_node example_attrs) redeclare_a)))) ''a'' =
     Some \<lparr>pd_type = PARAMETER_BOOL, pd_var_name = ''flag'', pd_validator = ''check_c''\<rparr>"
  by (simp add: redeclared_a) (simp add: example_manager_data)

section \<open>The bulk loader: arguments, one record, the loop\<close>

lemma isl_bind_exc: "isl (bind_exc r f) = (isl r \<or> (\<exists>x. r = Inr x \<and> isl (f x)))"
  by (cases r) (simp_all add: bind_exc_def)

lemma isl_then_arg: "isl (then_arg r s) = (isl r \<or> isl s)"
  by (cases r; cases s) (simp_all add: then_arg_def bind_exc_def)

lemma then_arg_first: "then_arg (Inl e) s = Inl e"
  by (simp add: then_arg_def bind_exc_def)

lemma isl_map_exc: "isl (map_exc f r) = isl r"
  by (cases r) (simp_all add: map_exc_def)

lemma map_exc_first: "map_exc f (Inl e) = Inl e"
  by (simp add: map_exc_def)

lemma isl_each_arg: "isl (each_arg f xs) = list_ex (\<lambda>x. isl (f x)) xs"
proof (induction xs)
  case Nil
  then show ?case by simp
next
  case (Cons x xs)
  then show ?case
    by (cases "f x"; cases "each_arg f xs") (simp_all add: bind_exc_def)
qed

lemma isl_str_item: "isl (str_item bi values k) = isl (py_getitem values k)"
  by (simp add: str_item_def isl_bind_exc)

lemma isl_str_get: "isl (str_get bi values k) = isl (py_get values k)"
  by (simp add: str_get_def isl_bind_exc)

lemma isl_int_item: "isl (py_getitem values k) \<Longrightarrow> isl (int_item bi values k)"
  by (simp add: int_item_def isl_bind_exc)

lemma isl_float_item: "isl (py_getitem values k) \<Longrightarrow> isl (float_item bi values k)"
  by (simp add: float_item_def isl_bind_exc)

lemma isl_list_item: "isl (py_getitem values k) \<Longrightarrow> isl (list_item conv values k)"
  by (simp add: list_item_def isl_bind_exc)

lemma isl_bool_item:
  "isl (bool_item bi values k) =
     (isl (py_getitem values k) \<or> (\<exists>v. py_getitem values k = Inr v \<and> bad_bool bi v))"
  by (simp add: bool_item_def isl_bind_exc bad_bool_def)

lemma isl_bool_list_item:
  "py_getitem values k = Inr v \<Longrightarrow> py_list v = Inr xs \<Longrightarrow> list_ex (bad_bool bi) xs \<Longrightarrow>
     isl (list_item (\<lambda>val. parse_bool_str (py_str bi val)) values k)"
  by (simp add: list_item_def bind_exc_def isl_each_arg bad_bool_def[abs_def])

lemma isl_common_args:
  "isl (common_args bi values) =
     (isl (py_getitem values ''description'') \<or> isl (py_getitem values ''constraints'') \<or>
      isl (bool_item bi values ''read_only'') \<or>
      isl (py_get values ''var_name'') \<or> isl (py_get values ''validator''))"
  by (simp add: common_args_def isl_then_arg isl_str_item isl_str_get)

lemma isl_int_range_args:
  "isl (py_getitem values ''min_value'') \<or> isl (py_getitem values ''max_value'') \<or>
   isl (py_getitem values ''step'') \<Longrightarrow> isl (int_range_args bi values)"
  by (auto simp add: int_range_args_def isl_then_arg isl_int_item)

lemma isl_float_range_args:
  "isl (py_getitem values ''min_value'') \<or> isl (py_getitem values ''max_value'') \<or>
   isl (py_getitem values ''step'') \<Longrightarrow> isl (float_range_args bi values)"
  by (auto simp add: float_range_args_def isl_then_arg isl_float_item)

text \<open>The ways in which the arguments of the chosen call fail.\<close>

lemma call_fails_common:
  "isl (common_args bi values) \<Longrightarrow> isl (call_from_values bi n values ty)"
  by (simp add: call_from_values_def isl_map_exc isl_then_arg)

lemma call_fails_default:
  "isl (py_getitem values ''default_value'') \<Longrightarrow> isl (call_from_values bi n values ty)"
  by (simp add: call_from_values_def isl_map_exc isl_then_arg isl_int_item isl_float_item
      isl_list_item isl_str_item isl_bool_item)

lemma call_fails_range:
  assumes "ty \<in> set (map YStr numeric_types)"
    and "isl (py_getitem values ''min_value'') \<or> isl (py_getitem values ''max_value'') \<or>
         isl (py_getitem values ''step'')"
  shows "isl (call_from_values bi n values ty)"
  using assms(1) isl_int_range_args[OF assms(2), of bi] isl_float_range_args[OF assms(2), of bi]
  by (auto simp add: numeric_types_def call_from_values_def isl_map_exc isl_then_arg)

lemma call_fails_bool_default:
  "py_getitem values ''default_value'' = Inr v \<Longrightarrow> bad_bool bi v \<Longrightarrow>
     isl (call_from_values bi n values (YStr ''bool''))"
  by (simp add: call_from_values_def isl_map_exc isl_then_arg isl_bool_item)

lemma call_fails_bool_array_default:
  "py_getitem values ''default_value'' = Inr v \<Longrightarrow> py_list v = Inr xs \<Longrightarrow>
   list_ex (bad_bool bi) xs \<Longrightarrow>
     isl (call_from_values bi n values (YStr ''bool_array''))"
  by (simp add: call_from_values_def isl_map_exc isl_then_arg isl_bool_list_item)

lemma call_fails_unsupported:
  "ty \<notin> set (map YStr supported_types) \<Longrightarrow>
     call_from_values bi n values ty =
       Inl (ValueError (''Unsupported parameter type: '' @ py_str bi ty))"
  by (simp add: call_from_values_def supported_types_def)

lemma call_from_values_name:
  "call_from_values bi n values ty = Inr call \<Longrightarrow> call_name call = n"
  by (auto simp add: call_from_values_def map_exc_def split: if_splits sum.splits)

lemma py_getitem_map:
  "py_getitem (YMap items) k =
     (case map_of items (YStr k) of None \<Rightarrow> Inl (KeyError k) | Some v \<Rightarrow> Inr v)"
  by (simp add: py_getitem_def)

text \<open>One record: it fails and changes nothing, or it performs a call for its name.\<close>

lemma declare_from_values_type_fails:
  "py_getitem values ''type'' = Inl e \<Longrightarrow>
     declare_from_values bi dp m node n values = (Some e, m, node)"
  by (simp add: declare_from_values_def)

lemma declare_from_values_call_fails:
  "py_getitem values ''type'' = Inr ty \<Longrightarrow> call_from_values bi n values ty = Inl e \<Longrightarrow>
     declare_from_values bi dp m node n values = (Some e, m, node)"
  by (simp add: declare_from_values_def)

lemma declare_from_values_performs:
  "py_getitem values ''type'' = Inr ty \<Longrightarrow> call_from_values bi n values ty = Inr call \<Longrightarrow>
     declare_from_values bi dp m node n values = perform dp m node call"
  by (simp add: declare_from_values_def)

lemma declare_record_fails:
  "declare_from_values bi dp m node n values = (Some e, m1, node1) \<Longrightarrow>
     declare_record bi dp m node n values =
       (Some (RuntimeError (parse_failure_text n (exception_text e))), m1, node1)"
  by (simp add: declare_record_def)

lemma declare_record_cases:
  "(\<exists>e. declare_record bi dp m node n values =
          (Some (RuntimeError (parse_failure_text n (exception_text e))), m, node)) \<or>
   (\<exists>call. call_name call = n \<and>
      declare_from_values bi dp m node n values = perform dp m node call \<and>
      fst (snd (declare_record bi dp m node n values)) =
        add_to_data m n (call_type call) (call_var_name call) (call_validator call))"
proof (cases "py_getitem values ''type''")
  case (Inl e)
  from declare_record_fails[OF declare_from_values_type_fails[OF Inl]] show ?thesis by blast
next
  case (Inr ty)
  show ?thesis
  proof (cases "call_from_values bi n values ty")
    case (Inl e)
    from declare_record_fails[OF declare_from_values_call_fails[OF Inr Inl]]
    show ?thesis by blast
  next
    case inr: (Inr call)
    have n: "call_name call = n" by (rule call_from_values_name[OF inr])
    have p: "declare_from_values bi dp m node n values = perform dp m node call"
      by (rule declare_from_values_performs[OF Inr inr])
    have "fst (snd (declare_record bi dp m node n values)) = fst (snd (perform dp m node call))"
      by (simp add: declare_record_def p split: prod.splits option.splits)
    then have "fst (snd (declare_record bi dp m node n values)) =
        add_to_data m n (call_type call) (call_var_name call) (call_validator call)"
      by (simp add: perform_manager n)
    with n p show ?thesis by blast
  qed
qed

lemma declare_record_keys:
  "map fst (params_data (fst (snd (declare_record bi dp m node n values)))) =
     map fst (params_data m) \<or>
   map fst (params_data (fst (snd (declare_record bi dp m node n values)))) =
     (if n \<in> set (map fst (params_data m)) then map fst (params_data m)
      else map fst (params_data m) @ [n])"
proof -
  from declare_record_cases[of bi dp m node n "values"]
  consider e where "declare_record bi dp m node n values =
        (Some (RuntimeError (parse_failure_text n (exception_text e))), m, node)"
    | call where "fst (snd (declare_record bi dp m node n values)) =
        add_to_data m n (call_type call) (call_var_name call) (call_validator call)"
    by blast
  then show ?thesis
  proof cases
    case 1
    then show ?thesis by simp
  next
    case 2
    then show ?thesis by (simp only: keys_add_to_data) simp
  qed
qed

lemma declare_record_success_keys:
  assumes "declare_record bi dp m node n values = (None, m1, node1)"
  shows "map fst (params_data m1) =
     (if n \<in> set (map fst (params_data m)) then map fst (params_data m)
      else map fst (params_data m) @ [n])"
proof -
  from declare_record_cases[of bi dp m node n "values"] assms
  obtain call where "fst (snd (declare_record bi dp m node n values)) =
        add_to_data m n (call_type call) (call_var_name call) (call_validator call)"
    by auto
  with assms have "m1 = add_to_data m n (call_type call) (call_var_name call) (call_validator call)"
    by simp
  then show ?thesis by (simp only: keys_add_to_data)
qed

lemma malformed_record_fails:
  assumes "malformed bi values"
  shows "\<exists>e. declare_from_values bi dp m node n values = (Some e, m, node)"
proof -
  from assms obtain items where v: "values = YMap items"
    by (cases "values") (simp_all add: malformed_def missing_field_def bad_bool_text_def
        unsupported_type_def)
  show ?thesis
  proof (cases "map_of items (YStr ''type'')")
    case None
    then have "py_getitem values ''type'' = Inl (KeyError ''type'')"
      by (simp add: v py_getitem_map)
    from declare_from_values_type_fails[OF this] show ?thesis by blast
  next
    case (Some ty)
    then have ty: "py_getitem values ''type'' = Inr ty"
      by (simp add: v py_getitem_map)
    have missing: "isl (py_getitem values k) = (map_of items (YStr k) = None)" for k
      by (simp add: v py_getitem_map split: option.splits)
    have "isl (call_from_values bi n values ty)"
    proof -
      from assms consider "missing_field values" | "bad_bool_text bi values"
        | "unsupported_type values"
        by (auto simp add: malformed_def)
      then show ?thesis
      proof cases
        case 1
        then have "list_ex (\<lambda>k. map_of items (YStr k) = None) (required_fields ty)"
          by (simp add: v missing_field_def Some)
        then consider "isl (py_getitem values ''default_value'')"
          | "isl (common_args bi values)"
          | "ty \<in> set (map YStr numeric_types)"
            "isl (py_getitem values ''min_value'') \<or> isl (py_getitem values ''max_value'') \<or>
             isl (py_getitem values ''step'')"
          using Some
          by (auto simp add: required_fields_def missing isl_common_args isl_bool_item
              split: if_splits)
        then show ?thesis
        proof cases
          case 1
          then show ?thesis by (rule call_fails_default)
        next
          case 2
          then show ?thesis by (rule call_fails_common)
        next
          case 3
          then show ?thesis by (rule call_fails_range)
        qed
      next
        case 2
        then consider v1 where "map_of items (YStr ''read_only'') = Some v1" "bad_bool bi v1"
          | v2 where "map_of items (YStr ''default_value'') = Some v2"
              "ty = YStr ''bool''" "bad_bool bi v2"
          | v3 xs where "map_of items (YStr ''default_value'') = Some v3"
              "ty = YStr ''bool_array''" "py_list v3 = Inr xs" "list_ex (bad_bool bi) xs"
          using Some
          by (auto simp add: v bad_bool_text_def split: option.splits sum.splits)
        then show ?thesis
        proof cases
          case 1
          then have "isl (bool_item bi values ''read_only'')"
            by (simp add: isl_bool_item v py_getitem_map)
          then have "isl (common_args bi values)" by (simp add: isl_common_args)
          then show ?thesis by (rule call_fails_common)
        next
          case 2
          from 2(1) have "py_getitem values ''default_value'' = Inr v2"
            by (simp add: v py_getitem_map)
          from call_fails_bool_default[OF this 2(3)] 2(2) show ?thesis by simp
        next
          case 3
          from 3(1) have "py_getitem values ''default_value'' = Inr v3"
            by (simp add: v py_getitem_map)
          from call_fails_bool_array_default[OF this 3(3) 3(4)] 3(2) show ?thesis by simp
        qed
      next
        case 3
        then have "ty \<notin> set (map YStr supported_types)"
          by (simp add: v unsupported_type_def Some)
        from call_fails_unsupported[OF this] show ?thesis by simp
      qed
    qed
    then obtain e where "call_from_values bi n values ty = Inl e"
      by (cases "call_from_values bi n values ty") simp_all
    from declare_from_values_call_fails[OF ty this] show ?thesis by blast
  qed
qed

lemma malformed_record_raises:
  assumes "malformed bi values"
  shows "\<exists>cause. declare_record bi dp m node n values =
           (Some (RuntimeError (parse_failure_text n cause)), m, node)"
proof -
  from malformed_record_fails[OF assms] obtain e where
    "declare_from_values bi dp m node n values = (Some e, m, node)" by blast
  from declare_record_fails[OF this] show ?thesis by blast
qed

text \<open>The loop: it runs through a prefix that raises nothing, and stops where a record raises.\<close>

lemma declare_all_append:
  "declare_all bi dp m node pre = (None, m1, node1) \<Longrightarrow>
     declare_all bi dp m node (pre @ rest) = declare_all bi dp m1 node1 rest"
proof (induction pre arbitrary: m node)
  case Nil
  then show ?case by simp
next
  case (Cons x pre)
  obtain n v where x: "x = (n, v)" by (cases x)
  obtain e m2 node2 where r: "declare_record bi dp m node n v = (e, m2, node2)"
    by (cases "declare_record bi dp m node n v")
  show ?case
  proof (cases e)
    case None
    with Cons.prems r x have "declare_all bi dp m2 node2 pre = (None, m1, node1)" by simp
    from Cons.IH[OF this] r x None show ?thesis by simp
  next
    case (Some ex)
    with Cons.prems r x show ?thesis by simp
  qed
qed

lemma declare_all_stops:
  "declare_record bi dp m node n v = (Some e, m1, node1) \<Longrightarrow>
     declare_all bi dp m node ((n, v) # rest) = (Some e, m1, node1)"
  by simp

lemma declare_all_success_keys:
  "declare_all bi dp m node xs = (None, m1, node1) \<Longrightarrow>
     set (map fst (params_data m1)) = set (map fst (params_data m)) \<union> set (map fst xs)"
proof (induction xs arbitrary: m node)
  case Nil
  then show ?case by simp
next
  case (Cons x xs)
  obtain n v where x: "x = (n, v)" by (cases x)
  obtain e m2 node2 where r: "declare_record bi dp m node n v = (e, m2, node2)"
    by (cases "declare_record bi dp m node n v")
  show ?case
  proof (cases e)
    case None
    with Cons.prems r x have rest: "declare_all bi dp m2 node2 xs = (None, m1, node1)" by simp
    have "set (map fst (params_data m2)) = insert n (set (map fst (params_data m)))"
      using declare_record_success_keys[OF r[unfolded None]] by auto
    with Cons.IH[OF rest] x show ?thesis by auto
  next
    case (Some ex)
    with Cons.prems r x show ?thesis by simp
  qed
qed

lemma declare_all_keys:
  "distinct (map fst xs) \<Longrightarrow> set (map fst xs) \<inter> set (map fst (params_data m)) = {} \<Longrightarrow>
     \<exists>k \<le> length xs.
       map fst (params_data (fst (snd (declare_all bi dp m node xs)))) =
         map fst (params_data m) @ take k (map fst xs) \<and>
       (fst (declare_all bi dp m node xs) = None \<longrightarrow> k = length xs)"
proof (induction xs arbitrary: m node)
  case Nil
  then show ?case by simp
next
  case (Cons x xs)
  obtain n v where x: "x = (n, v)" by (cases x)
  obtain e m2 node2 where r: "declare_record bi dp m node n v = (e, m2, node2)"
    by (cases "declare_record bi dp m node n v")
  have names: "map fst (x # xs) = n # map fst xs" by (simp add: x)
  from Cons.prems(1) have dist: "distinct (map fst xs)" and nx: "n \<notin> set (map fst xs)"
    unfolding names by simp_all
  from Cons.prems(2) have fresh: "n \<notin> set (map fst (params_data m))"
    and disj: "set (map fst xs) \<inter> set (map fst (params_data m)) = {}"
    unfolding names by auto
  have m2: "fst (snd (declare_record bi dp m node n v)) = m2" by (simp add: r)
  have keys: "map fst (params_data m2) = map fst (params_data m) \<or>
      map fst (params_data m2) = map fst (params_data m) @ [n]"
    using declare_record_keys[of bi dp m node n v] fresh unfolding m2 by (simp only: if_False)
  show ?case
  proof (cases e)
    case (Some ex)
    have res: "declare_all bi dp m node (x # xs) = (Some ex, m2, node2)"
      unfolding x using r Some by simp
    have f: "fst (declare_all bi dp m node (x # xs)) \<noteq> None"
      and s: "fst (snd (declare_all bi dp m node (x # xs))) = m2"
      unfolding res by simp_all
    from keys show ?thesis
    proof
      assume a: "map fst (params_data m2) = map fst (params_data m)"
      have "(0::nat) \<le> length (x # xs)" by simp
      moreover have "map fst (params_data (fst (snd (declare_all bi dp m node (x # xs))))) =
          map fst (params_data m) @ take 0 (map fst (x # xs))"
        unfolding s a by simp
      ultimately have "0 \<le> length (x # xs) \<and>
          map fst (params_data (fst (snd (declare_all bi dp m node (x # xs))))) =
            map fst (params_data m) @ take 0 (map fst (x # xs)) \<and>
          (fst (declare_all bi dp m node (x # xs)) = None \<longrightarrow> 0 = length (x # xs))"
        by (simp add: f)
      then show ?thesis by (rule exI[of _ 0])
    next
      assume a: "map fst (params_data m2) = map fst (params_data m) @ [n]"
      have "Suc 0 \<le> length (x # xs)" by simp
      moreover have "map fst (params_data (fst (snd (declare_all bi dp m node (x # xs))))) =
          map fst (params_data m) @ take (Suc 0) (map fst (x # xs))"
        unfolding s a names by simp
      ultimately have "Suc 0 \<le> length (x # xs) \<and>
          map fst (params_data (fst (snd (declare_all bi dp m node (x # xs))))) =
            map fst (params_data m) @ take (Suc 0) (map fst (x # xs)) \<and>
          (fst (declare_all bi dp m node (x # xs)) = None \<longrightarrow> Suc 0 = length (x # xs))"
        by (simp add: f)
      then show ?thesis by (rule exI[of _ "Suc 0"])
    qed
  next
    case None
    have res: "declare_all bi dp m node (x # xs) = declare_all bi dp m2 node2 xs"
      unfolding x using r None by simp
    have k2: "map fst (params_data m2) = map fst (params_data m) @ [n]"
      using declare_record_success_keys[OF r[unfolded None]] fresh by (simp only: if_False)
    have "set (map fst xs) \<inter> set (map fst (params_data m2)) = {}"
      unfolding k2 using disj nx by auto
    from Cons.IH[OF dist this, of node2] obtain k where
      kk: "k \<le> length xs \<and>
         map fst (params_data (fst (snd (declare_all bi dp m2 node2 xs)))) =
            map fst (params_data m2) @ take k (map fst xs) \<and>
         (fst (declare_all bi dp m2 node2 xs) = None \<longrightarrow> k = length xs)" ..
    note k = kk[THEN conjunct1] kk[THEN conjunct2, THEN conjunct1]
      kk[THEN conjunct2, THEN conjunct2]
    have "Suc k \<le> length (x # xs)" using k(1) by simp
    moreover have "map fst (params_data (fst (snd (declare_all bi dp m node (x # xs))))) =
        map fst (params_data m) @ take (Suc k) (map fst (x # xs))"
      unfolding res k(2) k2 names by simp
    moreover have "fst (declare_all bi dp m node (x # xs)) = None \<longrightarrow>
        Suc k = length (x # xs)"
      unfolding res using k(3) by simp
    ultimately have "Suc k \<le> length (x # xs) \<and>
        map fst (params_data (fst (snd (declare_all bi dp m node (x # xs))))) =
          map fst (params_data m) @ take (Suc k) (map fst (x # xs)) \<and>
        (fst (declare_all bi dp m node (x # xs)) = None \<longrightarrow> Suc k = length (x # xs))"
      by (intro conjI)
    then show ?thesis by (rule exI[of _ "Suc k"])
  qed
qed

text \<open>The sorted dictionary of the items.\<close>

lemma update_fresh: "k \<notin> fst ` set ys \<Longrightarrow> AList.update k v ys = ys @ [(k, v)]"
  by (induction ys) auto

lemma foldl_update_fresh:
  "distinct (map fst xs) \<Longrightarrow> fst ` set xs \<inter> fst ` set ys = {} \<Longrightarrow>
     foldl (\<lambda>d (k, v). AList.update k v d) ys xs = ys @ xs"
proof (induction xs arbitrary: ys)
  case Nil
  then show ?case by simp
next
  case (Cons x xs)
  obtain k v where x: "x = (k, v)" by (cases x)
  from Cons.prems x have f: "k \<notin> fst ` set ys" by auto
  from Cons.prems x have d: "distinct (map fst xs)"
    and i: "fst ` set xs \<inter> fst ` set (ys @ [(k, v)]) = {}"
    by auto
  from Cons.IH[OF d i] show ?case by (simp add: x update_fresh[OF f])
qed

lemma py_dict_distinct: "distinct (map fst xs) \<Longrightarrow> py_dict xs = xs"
  using foldl_update_fresh[of xs "[]"] by (simp add: py_dict_def)

lemma map_fst_sorted_items: "map fst (py_sorted_items xs) = sort (map fst xs)"
proof -
  have "mset (map fst (sort_key fst xs)) = mset (map fst xs)" by simp
  moreover have "sorted (map fst (sort_key fst xs))" by (rule sorted_sort_key)
  ultimately have "sort (map fst xs) = map fst (sort_key fst xs)"
    by (rule properties_for_sort)
  then show ?thesis by (simp add: py_sorted_items_def)
qed

lemma distinct_sorted_items:
  "distinct (map fst xs) \<Longrightarrow> distinct (map fst (py_sorted_items xs))"
  by (simp add: map_fst_sorted_items)

lemma params_dict_sorted:
  "distinct (map fst xs) \<Longrightarrow> py_dict (py_sorted_items xs) = py_sorted_items xs"
  by (rule py_dict_distinct[OF distinct_sorted_items])

lemma filter_same_key:
  "distinct (map f zs) \<Longrightarrow> k \<in> set zs \<Longrightarrow> filter (\<lambda>x. f k = f x) zs = [k]"
proof (induction zs)
  case Nil
  then show ?case by simp
next
  case (Cons z zs)
  from Cons.prems(1) have nz: "f z \<notin> f ` set zs" and d: "distinct (map f zs)" by simp_all
  show ?case
  proof (cases "k = z")
    case True
    from nz have "filter (\<lambda>x. f z = f x) zs = []"
      by (auto simp add: filter_empty_conv)
    with True show ?thesis by simp
  next
    case False
    with Cons.prems(2) have kz: "k \<in> set zs" by simp
    then have "f k \<in> f ` set zs" by (rule imageI)
    with nz have "f k \<noteq> f z" by auto
    with Cons.IH[OF d kz] show ?thesis by simp
  qed
qed

lemma sorted_items_permutation:
  assumes "mset ys = mset xs" and "distinct (map fst xs)"
  shows "py_sorted_items ys = py_sorted_items xs"
proof -
  let ?s = "sort_key fst ys"
  have "mset (map fst ys) = mset (map fst xs)" using assms(1) by simp
  from mset_eq_imp_distinct_iff[OF this] assms(2) have dy: "distinct (map fst ys)" by simp
  have ds: "distinct (map fst ?s)"
    using distinct_sorted_items[OF dy] by (simp add: py_sorted_items_def)
  have sxy: "set ys = set xs" by (rule mset_eq_setD[OF assms(1)])
  have "sort_key fst xs = ?s"
  proof (rule properties_for_sort_key)
    show "mset ?s = mset xs" using assms(1) by simp
  next
    fix k
    assume k: "k \<in> set ?s"
    then have kx: "k \<in> set xs" using sxy by simp
    from filter_same_key[OF ds k] filter_same_key[OF assms(2) kx]
    show "filter (\<lambda>x. fst k = fst x) ?s = filter (\<lambda>x. fst k = fst x) xs" by simp
  next
    show "sorted (map fst ?s)" by (rule sorted_sort_key)
  qed
  then show ?thesis by (simp add: py_sorted_items_def)
qed

lemma sorted_example_items:
  "py_sorted_items [(''z_param'', z), (''a_param'', a)] = [(''a_param'', a), (''z_param'', z)]"
  by (simp add: py_sorted_items_def less_eq_char_def)

lemma sorted_example_items3:
  "py_sorted_items [(''z_param'', z), (''b_param'', b), (''a_param'', a)] =
     [(''a_param'', a), (''b_param'', b), (''z_param'', z)]"
  by (simp add: py_sorted_items_def less_eq_char_def)

lemma record_a_declared:
  "declare_record example_builtins example_declare_parameter (PManager_init False) empty_node
     ''a_param'' record_a =
   (None,
    \<lparr>params_data = [(''a_param'', \<lparr>pd_type = PARAMETER_INTEGER, pd_var_name = [],
                                  pd_validator = []\<rparr>)], verbose = False\<rparr>,
    \<lparr>attrs = Map.empty, logged = [], framework = [''a_param'']\<rparr>)"
  by (simp add: declare_record_def declare_from_values_def call_from_values_def record_a_def
      py_getitem_def py_get_def then_arg_def bind_exc_def map_exc_def int_item_def
      int_range_args_def common_args_def str_item_def bool_item_def str_get_def py_int_def
      py_str_def parse_bool_str_def declare_integer_parameter_def example_declare_parameter_def
      add_to_data_def PManager_init_def empty_node_def example_node_def validator_rejects_def
      getattr_def hasattr_def Let_def)

lemma record_z_declared:
  "declare_record example_builtins example_declare_parameter
     \<lparr>params_data = [(''a_param'', \<lparr>pd_type = PARAMETER_INTEGER, pd_var_name = [],
                                  pd_validator = []\<rparr>)], verbose = False\<rparr>
     \<lparr>attrs = Map.empty, logged = [], framework = [''a_param'']\<rparr>
     ''z_param'' record_z =
   (None,
    \<lparr>params_data = [(''a_param'', \<lparr>pd_type = PARAMETER_INTEGER, pd_var_name = [],
                                  pd_validator = []\<rparr>),
                    (''z_param'', \<lparr>pd_type = PARAMETER_STRING, pd_var_name = ''z_var'',
                                  pd_validator = []\<rparr>)], verbose = False\<rparr>,
    \<lparr>attrs = Map.empty, logged = [], framework = [''a_param'', ''z_param'']\<rparr>)"
  by (simp add: declare_record_def declare_from_values_def call_from_values_def record_z_def
      py_getitem_def py_get_def then_arg_def bind_exc_def map_exc_def
      common_args_def str_item_def bool_item_def str_get_def
      py_str_def parse_bool_str_def declare_string_parameter_def example_declare_parameter_def
      add_to_data_def validator_rejects_def getattr_def hasattr_def Let_def)

lemma record_bad_bool_raises:
  "declare_record example_builtins example_declare_parameter m node ''b_param'' record_bad_bool =
   (Some (RuntimeError (parse_failure_text ''b_param''
            ''Unknown boolean text representation: yes'')), m, node)"
  by (simp add: declare_record_def declare_from_values_def call_from_values_def
      record_bad_bool_def py_getitem_def then_arg_def bind_exc_def map_exc_def
      bool_item_def py_str_def parse_bool_str_def)

lemma record_bad_bool_malformed: "malformed example_builtins record_bad_bool"
  by (simp add: malformed_def bad_bool_text_def record_bad_bool_def bad_bool_def py_str_def
      parse_bool_str_def)

lemma parse_params_file_sorted:
  "distinct (map fst params) \<Longrightarrow>
     parse_params_file bi dp m node params = declare_all bi dp m node (py_sorted_items params)"
  by (simp add: parse_params_file_def params_dict_sorted)

text \<open>
  C7. The input is a dictionary, so its names are distinct. For names that the store
  does not hold yet, the names that the load adds to the store, in the order in which
  they are declared, are the first \<open>k\<close> names of the sorted list of the input's names,
  and all of them when the load raises nothing. The outcome of the load is the same for
  every order in which the input gives the same items.
\<close>

theorem bulk_load_declares_in_sorted_order:
  assumes "distinct (map fst params)"
    and "set (map fst params) \<inter> set (map fst (params_data m)) = {}"
  shows "(\<exists>k \<le> length params.
            map fst (params_data (fst (snd (parse_params_file bi dp m node params)))) =
              map fst (params_data m) @ take k (sort (map fst params)) \<and>
            (fst (parse_params_file bi dp m node params) = None \<longrightarrow> k = length params)) \<and>
         (\<forall>params'. mset params' = mset params \<longrightarrow>
            parse_params_file bi dp m node params' = parse_params_file bi dp m node params)"
proof
  let ?xs = "py_sorted_items params"
  have d: "distinct (map fst ?xs)" by (rule distinct_sorted_items[OF assms(1)])
  have i: "set (map fst ?xs) \<inter> set (map fst (params_data m)) = {}"
    using assms(2) by (simp only: map_fst_sorted_items set_sort)
  have l: "length ?xs = length params" by (simp add: py_sorted_items_def)
  from declare_all_keys[OF d i, of bi dp node]
  show "\<exists>k \<le> length params.
      map fst (params_data (fst (snd (parse_params_file bi dp m node params)))) =
        map fst (params_data m) @ take k (sort (map fst params)) \<and>
      (fst (parse_params_file bi dp m node params) = None \<longrightarrow> k = length params)"
    by (simp only: parse_params_file_sorted[OF assms(1)] l map_fst_sorted_items)
next
  show "\<forall>params'. mset params' = mset params \<longrightarrow>
      parse_params_file bi dp m node params' = parse_params_file bi dp m node params"
  proof (intro allI impI)
    fix params' :: "(string \<times> yaml) list"
    assume p: "mset params' = mset params"
    then have "mset (map fst params') = mset (map fst params)" by simp
    from mset_eq_imp_distinct_iff[OF this] assms(1) have d': "distinct (map fst params')"
      by simp
    show "parse_params_file bi dp m node params' = parse_params_file bi dp m node params"
      by (simp only: parse_params_file_sorted[OF assms(1)] parse_params_file_sorted[OF d']
          sorted_items_permutation[OF p assms(1)])
  qed
qed

theorem bulk_load_declares_in_sorted_order_witness:
  "distinct (map fst [(''z_param'', record_z), (''a_param'', record_a)]) \<and>
   params_data (PManager_init False) = [] \<and>
   fst (parse_params_file example_builtins example_declare_parameter (PManager_init False)
         empty_node [(''z_param'', record_z), (''a_param'', record_a)]) = None \<and>
   map fst (params_data (fst (snd (parse_params_file example_builtins example_declare_parameter
         (PManager_init False) empty_node [(''z_param'', record_z), (''a_param'', record_a)])))) =
     [''a_param'', ''z_param''] \<and>
   parse_params_file example_builtins example_declare_parameter (PManager_init False)
         empty_node [(''a_param'', record_a), (''z_param'', record_z)] =
     parse_params_file example_builtins example_declare_parameter (PManager_init False)
         empty_node [(''z_param'', record_z), (''a_param'', record_a)]"
proof -
  let ?params = "[(''z_param'', record_z), (''a_param'', record_a)]"
  let ?load = "parse_params_file example_builtins example_declare_parameter
      (PManager_init False) empty_node"
  have h1: "distinct (map fst ?params)" by simp
  have e: "params_data (PManager_init False) = []" by (simp add: PManager_init_def)
  have h2: "set (map fst ?params) \<inter> set (map fst (params_data (PManager_init False))) = {}"
    by (simp add: e)
  note t = bulk_load_declares_in_sorted_order[OF h1 h2,
      of example_builtins example_declare_parameter empty_node]
  have ok: "fst (?load ?params) = None"
    by (simp add: parse_params_file_sorted sorted_example_items record_a_declared
        record_z_declared)
  from t[THEN conjunct1] obtain k where
    kk: "k \<le> length ?params \<and>
      map fst (params_data (fst (snd (?load ?params)))) =
        map fst (params_data (PManager_init False)) @ take k (sort (map fst ?params)) \<and>
      (fst (?load ?params) = None \<longrightarrow> k = length ?params)" ..
  from kk ok have k: "k = length ?params" by simp
  have s: "sort (map fst ?params) = [''a_param'', ''z_param'']"
    using map_fst_sorted_items[of ?params] by (simp add: sorted_example_items)
  have names: "map fst (params_data (fst (snd (?load ?params)))) = [''a_param'', ''z_param'']"
    using kk by (simp add: k e s)
  have "mset [(''a_param'', record_a), (''z_param'', record_z)] = mset ?params" by simp
  note perm = t[THEN conjunct2, THEN spec, THEN mp, OF this]
  show ?thesis
    by (intro conjI) (rule h1 e ok names perm)+
qed

text \<open>
  C8. The input is a dictionary. When the record of a name is malformed (a required field
  is missing, a boolean text cannot be parsed, or the type tag is not supported) and the
  records that come before it in sorted order have been declared without an exception,
  the load raises a \<open>RuntimeError\<close> whose message names that parameter, and the manager
  and the node are those that the earlier records left: the names in the store are the
  ones it held before and those of the earlier records, and no others.
\<close>

theorem bulk_load_aborts_at_malformed_record:
  assumes "distinct (map fst params)"
    and "py_sorted_items params = pre @ (n, values) # post"
    and "declare_all bi dp m node pre = (None, m1, node1)"
    and "malformed bi values"
  shows "(\<exists>cause. parse_params_file bi dp m node params =
            (Some (RuntimeError
               (''Failed to parse configuration of parameter '' @ n @ '': '' @ cause)),
             m1, node1)) \<and>
         set (map fst (params_data m1)) = set (map fst (params_data m)) \<union> set (map fst pre)"
proof
  from malformed_record_raises[OF assms(4), of dp m1 node1 n] obtain cause where
    c: "declare_record bi dp m1 node1 n values =
          (Some (RuntimeError (parse_failure_text n cause)), m1, node1)" ..
  have "parse_params_file bi dp m node params =
      declare_all bi dp m node (pre @ (n, values) # post)"
    by (simp only: parse_params_file_sorted[OF assms(1)] assms(2))
  also have "\<dots> = declare_all bi dp m1 node1 ((n, values) # post)"
    by (rule declare_all_append[OF assms(3)])
  also have "\<dots> = (Some (RuntimeError (parse_failure_text n cause)), m1, node1)"
    by (rule declare_all_stops[OF c])
  finally have "parse_params_file bi dp m node params =
      (Some (RuntimeError
         (''Failed to parse configuration of parameter '' @ n @ '': '' @ cause)), m1, node1)"
    by (simp only: parse_failure_text_def)
  then show "\<exists>cause. parse_params_file bi dp m node params =
      (Some (RuntimeError
         (''Failed to parse configuration of parameter '' @ n @ '': '' @ cause)), m1, node1)" ..
next
  show "set (map fst (params_data m1)) = set (map fst (params_data m)) \<union> set (map fst pre)"
    by (rule declare_all_success_keys[OF assms(3)])
qed

theorem bulk_load_aborts_at_malformed_record_witness:
  "distinct (map fst [(''z_param'', record_z), (''b_param'', record_bad_bool),
                      (''a_param'', record_a)]) \<and>
   py_sorted_items [(''z_param'', record_z), (''b_param'', record_bad_bool),
                    (''a_param'', record_a)] =
     [(''a_param'', record_a)] @ (''b_param'', record_bad_bool) # [(''z_param'', record_z)] \<and>
   malformed example_builtins record_bad_bool \<and>
   parse_params_file example_builtins example_declare_parameter (PManager_init False) empty_node
     [(''z_param'', record_z), (''b_param'', record_bad_bool), (''a_param'', record_a)] =
   (Some (RuntimeError (''Failed to parse configuration of parameter '' @ ''b_param'' @ '': '' @
            ''Unknown boolean text representation: yes'')),
    \<lparr>params_data = [(''a_param'', \<lparr>pd_type = PARAMETER_INTEGER, pd_var_name = [],
                                  pd_validator = []\<rparr>)], verbose = False\<rparr>,
    \<lparr>attrs = Map.empty, logged = [], framework = [''a_param'']\<rparr>)"
proof -
  let ?params = "[(''z_param'', record_z), (''b_param'', record_bad_bool),
      (''a_param'', record_a)]"
  let ?m1 = "\<lparr>params_data = [(''a_param'', \<lparr>pd_type = PARAMETER_INTEGER, pd_var_name = [],
      pd_validator = []\<rparr>)], verbose = False\<rparr>"
  let ?node1 = "\<lparr>attrs = Map.empty, logged = [], framework = [''a_param'']\<rparr>
      :: (string list) Node"
  let ?load = "parse_params_file example_builtins example_declare_parameter
      (PManager_init False) empty_node ?params"
  have h1: "distinct (map fst ?params)" by simp
  have h2: "py_sorted_items ?params =
      [(''a_param'', record_a)] @ (''b_param'', record_bad_bool) # [(''z_param'', record_z)]"
    by (simp add: sorted_example_items3)
  have h3: "declare_all example_builtins example_declare_parameter (PManager_init False)
      empty_node [(''a_param'', record_a)] = (None, ?m1, ?node1)"
    by (simp add: record_a_declared)
  note h4 = record_bad_bool_malformed
  from bulk_load_aborts_at_malformed_record[OF h1 h2 h3 h4, THEN conjunct1]
  obtain cause where c: "?load =
      (Some (RuntimeError
         (''Failed to parse configuration of parameter '' @ ''b_param'' @ '': '' @ cause)),
       ?m1, ?node1)" ..
  have ev: "?load =
      (Some (RuntimeError (parse_failure_text ''b_param''
         ''Unknown boolean text representation: yes'')), ?m1, ?node1)"
    by (simp add: parse_params_file_sorted sorted_example_items3 record_a_declared
        record_bad_bool_raises)
  from c ev have "cause = ''Unknown boolean text representation: yes''"
    by (simp add: parse_failure_text_def)
  with c have r: "?load =
      (Some (RuntimeError (''Failed to parse configuration of parameter '' @ ''b_param'' @
         '': '' @ ''Unknown boolean text representation: yes'')), ?m1, ?node1)"
    by simp
  show ?thesis
    by (intro conjI) (rule h1 h2 h4 r)+
qed

text \<open>
  C9. The boolean-text parser returns true for \<open>true\<close> and \<open>True\<close>, false for
  \<open>false\<close> and \<open>False\<close>, and raises a \<open>ValueError\<close> for every other string. In the
  loader, a record with a boolean text that cannot be parsed makes the loop stop at that
  record with a \<open>RuntimeError\<close> that names the parameter and leaves manager and node as
  they were; for a \<open>bool\<close> record with such a default, the message ends with the text of
  the \<open>ValueError\<close>.
\<close>

theorem parse_bool_str_and_its_failure:
  "parse_bool_str ''true'' = Inr True \<and> parse_bool_str ''True'' = Inr True \<and>
   parse_bool_str ''false'' = Inr False \<and> parse_bool_str ''False'' = Inr False \<and>
   (word \<notin> {''true'', ''True'', ''false'', ''False''} \<longrightarrow>
      parse_bool_str word = Inl (ValueError (''Unknown boolean text representation: '' @ word))) \<and>
   (bad_bool_text bi values \<longrightarrow>
      (\<exists>cause. declare_all bi dp m node ((n, values) # rest) =
         (Some (RuntimeError
            (''Failed to parse configuration of parameter '' @ n @ '': '' @ cause)), m, node))) \<and>
   (py_getitem values ''type'' = Inr (YStr ''bool'') \<and>
    py_getitem values ''default_value'' = Inr v \<and>
    py_str bi v \<notin> {''true'', ''True'', ''false'', ''False''} \<longrightarrow>
      declare_all bi dp m node ((n, values) # rest) =
        (Some (RuntimeError
           (''Failed to parse configuration of parameter '' @ n @ '': '' @
            ''Unknown boolean text representation: '' @ py_str bi v)), m, node))"
proof (intro conjI impI)
  show "parse_bool_str ''true'' = Inr True" "parse_bool_str ''True'' = Inr True"
    "parse_bool_str ''false'' = Inr False" "parse_bool_str ''False'' = Inr False"
    by (simp_all add: parse_bool_str_def)
next
  assume "word \<notin> {''true'', ''True'', ''false'', ''False''}"
  then show "parse_bool_str word =
      Inl (ValueError (''Unknown boolean text representation: '' @ word))"
    by (simp add: parse_bool_str_def)
next
  assume "bad_bool_text bi values"
  then have "malformed bi values" by (simp add: malformed_def)
  from malformed_record_raises[OF this, of dp m node n] obtain cause where
    c: "declare_record bi dp m node n values =
          (Some (RuntimeError (parse_failure_text n cause)), m, node)" ..
  from declare_all_stops[OF c, of rest]
  have "declare_all bi dp m node ((n, values) # rest) =
      (Some (RuntimeError
         (''Failed to parse configuration of parameter '' @ n @ '': '' @ cause)), m, node)"
    by (simp only: parse_failure_text_def)
  then show "\<exists>cause. declare_all bi dp m node ((n, values) # rest) =
      (Some (RuntimeError
         (''Failed to parse configuration of parameter '' @ n @ '': '' @ cause)), m, node)" ..
next
  assume a: "py_getitem values ''type'' = Inr (YStr ''bool'') \<and>
    py_getitem values ''default_value'' = Inr v \<and>
    py_str bi v \<notin> {''true'', ''True'', ''false'', ''False''}"
  let ?e = "ValueError (''Unknown boolean text representation: '' @ py_str bi v)"
  from a have "bool_item bi values ''default_value'' = Inl ?e"
    by (simp add: bool_item_def bind_exc_def parse_bool_str_def)
  then have "call_from_values bi n values (YStr ''bool'') = Inl ?e"
    by (simp add: call_from_values_def then_arg_first map_exc_first)
  from declare_from_values_call_fails[OF a[THEN conjunct1] this]
  have "declare_from_values bi dp m node n values = (Some ?e, m, node)" .
  from declare_all_stops[OF declare_record_fails[OF this], of rest]
  show "declare_all bi dp m node ((n, values) # rest) =
      (Some (RuntimeError
         (''Failed to parse configuration of parameter '' @ n @ '': '' @
          ''Unknown boolean text representation: '' @ py_str bi v)), m, node)"
    by (simp only: parse_failure_text_def exception_text.simps)
qed

theorem parse_bool_str_and_its_failure_witness:
  "parse_bool_str ''yes'' = Inl (ValueError ''Unknown boolean text representation: yes'') \<and>
   bad_bool_text example_builtins record_bad_bool \<and>
   py_getitem record_bad_bool ''type'' = Inr (YStr ''bool'') \<and>
   py_getitem record_bad_bool ''default_value'' = Inr (YStr ''yes'') \<and>
   py_str example_builtins (YStr ''yes'') = ''yes'' \<and>
   declare_all example_builtins example_declare_parameter (PManager_init False) empty_node
     ((''b_param'', record_bad_bool) # [(''z_param'', record_z)]) =
   (Some (RuntimeError
      (''Failed to parse configuration of parameter '' @ ''b_param'' @ '': '' @
       ''Unknown boolean text representation: '' @ ''yes'')), PManager_init False, empty_node)"
proof -
  note t = parse_bool_str_and_its_failure[of "''yes''" example_builtins record_bad_bool
      example_declare_parameter "PManager_init False" empty_node "''b_param''"
      "[(''z_param'', record_z)]" "YStr ''yes''"]
  have w: "''yes'' \<notin> {''true'', ''True'', ''false'', ''False''}" by simp
  have b: "bad_bool_text example_builtins record_bad_bool"
    by (simp add: bad_bool_text_def record_bad_bool_def bad_bool_def py_str_def
        parse_bool_str_def)
  have g1: "py_getitem record_bad_bool ''type'' = Inr (YStr ''bool'')"
    and g2: "py_getitem record_bad_bool ''default_value'' = Inr (YStr ''yes'')"
    by (simp_all add: py_getitem_def record_bad_bool_def)
  have s: "py_str example_builtins (YStr ''yes'') = ''yes''" by (simp add: py_str_def)
  have p: "py_getitem record_bad_bool ''type'' = Inr (YStr ''bool'') \<and>
      py_getitem record_bad_bool ''default_value'' = Inr (YStr ''yes'') \<and>
      py_str example_builtins (YStr ''yes'') \<notin> {''true'', ''True'', ''false'', ''False''}"
    using g1 g2 by (simp add: s)
  note t5 = t[THEN conjunct2, THEN conjunct2, THEN conjunct2, THEN conjunct2, THEN conjunct1,
      THEN mp, OF w]
  note t7 = t[THEN conjunct2, THEN conjunct2, THEN conjunct2, THEN conjunct2, THEN conjunct2,
      THEN conjunct2, THEN mp, OF p, unfolded s]
  have c1: "parse_bool_str ''yes'' =
      Inl (ValueError ''Unknown boolean text representation: yes'')"
    using t5 by simp
  show ?thesis
    by (intro conjI) (rule c1 b g1 g2 s t7)+
qed

text \<open>
  C10. The callback returns the manager it was given, with its declaration store, for
  every batch and every node, whether the batch is accepted or rejected. The store changes
  through declare calls: one record of the loader leaves the manager as it is, or leaves
  the manager that a declare call for the record's name leaves.
\<close>

theorem callback_keeps_manager:
  "fst (snd (on_set_parameters_callback m node params)) = m \<and>
   (fst (snd (declare_record bi dp m node n values)) = m \<or>
    (\<exists>call. call_name call = n \<and>
       fst (snd (declare_record bi dp m node n values)) = fst (snd (perform dp m node call))))"
proof
  show "fst (snd (on_set_parameters_callback m node params)) = m"
  proof (cases "accepted_all m (attrs node) params")
    case True
    from callback_accepted_all[OF True] show ?thesis by simp
  next
    case False
    from not_accepted_all_split[OF False] obtain pre p post where
      h: "params = pre @ p # post" "accepted_all m (attrs node) pre"
         "rejects_at m (foldl (write_back m) (attrs node) pre) p" by blast
    from callback_first_rejected[OF h(2) h(3), of post] h(1) show ?thesis by simp
  qed
next
  from declare_record_cases[of bi dp m node n "values"]
  consider e where "declare_record bi dp m node n values =
        (Some (RuntimeError (parse_failure_text n (exception_text e))), m, node)"
    | call where "call_name call = n"
        "fst (snd (declare_record bi dp m node n values)) =
           add_to_data m n (call_type call) (call_var_name call) (call_validator call)"
    by blast
  then show "fst (snd (declare_record bi dp m node n values)) = m \<or>
      (\<exists>call. call_name call = n \<and>
         fst (snd (declare_record bi dp m node n values)) = fst (snd (perform dp m node call)))"
  proof cases
    case 1
    then show ?thesis by simp
  next
    case 2
    have "fst (snd (perform dp m node call)) =
        add_to_data m n (call_type call) (call_var_name call) (call_validator call)"
      by (simp only: perform_manager 2(1))
    with 2 have "call_name call = n \<and>
        fst (snd (declare_record bi dp m node n values)) = fst (snd (perform dp m node call))"
      by simp
    then show ?thesis by (intro disjI2 exI)
  qed
qed

theorem callback_keeps_manager_witness:
  "params_data (fst (snd (on_set_parameters_callback example_manager (example_node example_attrs)
      [param_a, param_b_bad, param_c]))) = params_data example_manager \<and>
   params_data (fst (snd (on_set_parameters_callback example_manager (example_node example_attrs)
      [param_a, param_c]))) = params_data example_manager \<and>
   fst (snd (declare_record example_builtins example_declare_parameter (PManager_init False)
      empty_node ''b_param'' record_bad_bool)) = PManager_init False"
proof -
  note t1 = callback_keeps_manager
      [of example_manager "example_node example_attrs" "[param_a, param_b_bad, param_c]"
        example_builtins example_declare_parameter "''b_param''" record_bad_bool,
        THEN conjunct1]
  note t2 = callback_keeps_manager
      [of example_manager "example_node example_attrs" "[param_a, param_c]"
        example_builtins example_declare_parameter "''b_param''" record_bad_bool,
        THEN conjunct1]
  have t3: "fst (snd (declare_record example_builtins example_declare_parameter
      (PManager_init False) empty_node ''b_param'' record_bad_bool)) = PManager_init False"
    by (simp add: record_bad_bool_raises)
  show ?thesis
    by (intro conjI) (simp_all only: t1 t2 t3)
qed

end
